theory Spec2Isabelle
  imports Complex_Main
begin

section \<open>Entities and schemas (database\_utls.py)\<close>

text \<open>
  Strings are byte strings: a Python \<open>str\<close> in its UTF-8 encoding.

  A \<open>datetime\<close> is a wall-clock reading (microseconds on the proleptic calendar) together
  with the UTC offset of its \<open>tzinfo\<close>, if it has one; nothing is computed from the
  reading. A Python \<open>float\<close> that arrives in a request is a finite number, an infinity
  or NaN. The two score literals of \<open>get_recommendations\<close> are finite and are carried as
  real numbers.
\<close>

record datetime =
  wall_clock :: int
  utcoffset :: "int option"

datatype pyfloat = Finite real | PosInf | NegInf | NaN

type_synonym float = real

text \<open>
  The ORM classes. An object built by the class constructor has no identifier yet
  (\<open>id\<close> is \<open>None\<close> until the INSERT assigns one), and a column default that the
  constructor was not given (\<open>is_active\<close>) is \<open>None\<close> until the row is loaded. The
  \<open>package_lpa\<close> column can hold NULL.
\<close>

record user =
  user_id :: "int option"
  user_full_name :: string
  user_email :: string
  user_hashed_password :: string
  user_account_type :: string
  user_is_active :: "bool option"

record company =
  co_id :: "int option"
  co_name :: string
  co_industry :: string
  co_location :: string

record drive =
  drive_id :: "int option"
  drive_company_id :: int
  drive_role :: string
  drive_package_lpa :: "pyfloat option"
  drive_deadline :: datetime

record application =
  app_id :: "int option"
  app_user_id :: int
  app_drive_id :: int
  app_status :: string
  app_applied_date :: datetime

text \<open>The pydantic schemas: \<open>UserCreate\<close>, \<open>UserSchema\<close>, \<open>DriveBase\<close>.\<close>

record user_create =
  create_full_name :: string
  create_email :: string
  create_password :: string
  create_account_type :: string

record user_schema =
  schema_id :: int
  schema_full_name :: string
  schema_email :: string
  schema_account_type :: string

record drive_base =
  base_company_id :: int
  base_role :: string
  base_package_lpa :: pyfloat
  base_deadline :: datetime

section \<open>Exceptions\<close>

datatype db_error =
    IntegrityError string
  | InvalidRequestError string
  | OperationalError string

datatype error =
    HTTPException nat string
  | AttributeError string
  | ValidationError string
  | OverflowError string
  | PasswordValueError string
  | UnknownHashError string
  | DBError db_error

section \<open>The relational store and the session (database.py)\<close>

text \<open>
  The four tables of \<open>placement.db\<close>, each a list of rows in insertion order. A query
  returns the rows in that order.
\<close>

record database =
  users :: "user list"
  companies :: "company list"
  drives :: "drive list"
  applications :: "application list"

text \<open>
  What the SQLite driver does to a value on its way into a statement. An integer is bound
  as a signed 64-bit integer, and one that does not fit raises \<open>OverflowError\<close>. NaN is
  stored as NULL. A \<open>DateTime\<close> column stores the wall-clock reading and drops the UTC
  offset.
\<close>

definition int64 :: "int \<Rightarrow> bool" where
  "int64 i \<longleftrightarrow> - (2 ^ 63) \<le> i \<and> i < 2 ^ 63"

definition sqlite_integer :: "int \<Rightarrow> error + int" where
  "sqlite_integer i =
     (if int64 i then Inr i
      else Inl (OverflowError ''Python int too large to convert to SQLite INTEGER''))"

definition sqlite_real :: "pyfloat option \<Rightarrow> pyfloat option" where
  "sqlite_real v = (if v = Some NaN then None else v)"

definition sqlite_datetime :: "datetime \<Rightarrow> datetime" where
  "sqlite_datetime t = t\<lparr>utcoffset := None\<rparr>"

text \<open>
  A session holds the committed tables it reads and the objects handed to \<open>add\<close> that no
  INSERT has been issued for yet. \<open>SessionLocal\<close> is built with \<open>autoflush=False\<close>, so
  the pending objects reach the tables at \<open>commit\<close> only: a query issues a SELECT and
  nothing else.

  Whether the engine can carry out a write, or load a row again, is not decided by the
  program: another connection may hold the lock, the disk may fail, the row may have been
  deleted meanwhile. The session records what the engine will answer: \<open>commit_fault\<close> is
  the error a commit meets, \<open>refresh_fault\<close> the error a refresh meets, \<open>None\<close> where the
  engine does what it is asked. \<open>SessionLocal\<close> gives a new session on an engine without
  faults.
\<close>

record session =
  store :: database
  new_users :: "user list"
  new_drives :: "drive list"
  commit_fault :: "db_error option"
  refresh_fault :: "db_error option"

definition SessionLocal :: "database \<Rightarrow> session" where
  "SessionLocal d =
     \<lparr>store = d, new_users = [], new_drives = [], commit_fault = None, refresh_fault = None\<rparr>"

text \<open>\<open>Query.first()\<close>: the first row of the result, or \<open>None\<close>.\<close>

definition first :: "'a list \<Rightarrow> 'a option" where
  "first rows = (case rows of [] \<Rightarrow> None | r # _ \<Rightarrow> Some r)"

text \<open>\<open>db.query(User)\<close>, \<open>db.query(Company)\<close>, \<open>db.query(Drive)\<close>.\<close>

definition query_users :: "session \<Rightarrow> user list \<times> session" where
  "query_users db = (users (store db), db)"

definition query_companies :: "session \<Rightarrow> company list \<times> session" where
  "query_companies db = (companies (store db), db)"

definition query_drives :: "session \<Rightarrow> drive list \<times> session" where
  "query_drives db = (drives (store db), db)"

text \<open>
  The identifier an INSERT assigns to an integer primary key that was left empty: 1 in an
  empty table, otherwise one more than the largest identifier in the table. (SQLite leaves
  this rule only once the largest identifier is \<open>2^63 - 1\<close>; identifiers here start at 1
  and grow by one.)
\<close>

definition next_rowid :: "int list \<Rightarrow> int" where
  "next_rowid ids = (case ids of [] \<Rightarrow> 1 | i # rest \<Rightarrow> fold max rest i + 1)"

text \<open>
  INSERT into \<open>users\<close>: the primary key and \<open>email\<close> are unique; \<open>is_active\<close> defaults
  to true in the row. The result is the new table and the object as the session holds it
  after the flush, with its identifier set.
\<close>

definition insert_user :: "database \<Rightarrow> user \<Rightarrow> db_error + database \<times> user" where
  "insert_user d u =
     (let ids = List.map_filter user_id (users d);
          obj = u\<lparr>user_id := Some (case user_id u of None \<Rightarrow> next_rowid ids | Some i \<Rightarrow> i)\<rparr>;
          row = obj\<lparr>user_is_active :=
                      Some (case user_is_active u of None \<Rightarrow> True | Some b \<Rightarrow> b)\<rparr>
      in if user_id u \<in> Some ` set ids then
           Inl (IntegrityError ''UNIQUE constraint failed: users.id'')
         else if user_email u \<in> set (map user_email (users d)) then
           Inl (IntegrityError ''UNIQUE constraint failed: users.email'')
         else Inr (d\<lparr>users := users d @ [row]\<rparr>, obj))"

text \<open>
  INSERT into \<open>drives\<close>: only the primary key is constrained (SQLite does not enforce
  the foreign key unless asked to, and the engine is created without that). The row holds
  the values as the driver stores them.
\<close>

definition insert_drive :: "database \<Rightarrow> drive \<Rightarrow> db_error + database \<times> drive" where
  "insert_drive d x =
     (let ids = List.map_filter drive_id (drives d);
          obj = x\<lparr>drive_id := Some (case drive_id x of None \<Rightarrow> next_rowid ids | Some i \<Rightarrow> i)\<rparr>;
          row = obj\<lparr>drive_package_lpa := sqlite_real (drive_package_lpa x),
                    drive_deadline := sqlite_datetime (drive_deadline x)\<rparr>
      in if drive_id x \<in> Some ` set ids then
           Inl (IntegrityError ''UNIQUE constraint failed: drives.id'')
         else Inr (d\<lparr>drives := drives d @ [row]\<rparr>, obj))"

text \<open>
  The flush of a list of pending objects, in the order they were added: it stops at the
  first INSERT that fails, and otherwise returns the new tables and the objects with their
  identifiers.
\<close>

fun flush :: "('d \<Rightarrow> 'a \<Rightarrow> db_error + 'd \<times> 'a) \<Rightarrow> 'd \<Rightarrow> 'a list \<Rightarrow> db_error + 'd \<times> 'a list" where
  "flush ins d [] = Inr (d, [])"
| "flush ins d (x # xs) =
     (case ins d x of
        Inl e \<Rightarrow> Inl e
      | Inr (d', x') \<Rightarrow>
          (case flush ins d' xs of
             Inl e \<Rightarrow> Inl e
           | Inr (d'', xs') \<Rightarrow> Inr (d'', x' # xs')))"

text \<open>\<open>db.add(obj)\<close>: the object is pending.\<close>

definition add_user :: "session \<Rightarrow> user \<Rightarrow> session" where
  "add_user db u = db\<lparr>new_users := new_users db @ [u]\<rparr>"

definition add_drive :: "session \<Rightarrow> drive \<Rightarrow> session" where
  "add_drive db x = db\<lparr>new_drives := new_drives db @ [x]\<rparr>"

text \<open>
  What a session is left with when its transaction is rolled back: the pending objects
  are expunged, the committed tables stay.
\<close>

definition expunge_pending :: "session \<Rightarrow> session" where
  "expunge_pending db = db\<lparr>new_users := [], new_drives := []\<rparr>"

text \<open>
  \<open>db.commit()\<close>: flush every pending object and make the result durable. If the engine
  cannot write, or an INSERT is refused, the commit raises; the session has then rolled
  its transaction back by itself, so the committed tables are as they were and the
  pending objects are gone. On success the objects are returned with their identifiers,
  which is how the Python objects look after the flush.
\<close>

definition commit :: "session \<Rightarrow> (db_error + user list \<times> drive list) \<times> session" where
  "commit db =
     (case commit_fault db of
        Some e \<Rightarrow> (Inl e, expunge_pending db)
      | None \<Rightarrow>
          (case flush insert_user (store db) (new_users db) of
             Inl e \<Rightarrow> (Inl e, expunge_pending db)
           | Inr (d1, us) \<Rightarrow>
               (case flush insert_drive d1 (new_drives db) of
                  Inl e \<Rightarrow> (Inl e, expunge_pending db)
                | Inr (d2, ds) \<Rightarrow> (Inr (us, ds), expunge_pending (db\<lparr>store := d2\<rparr>)))))"

text \<open>\<open>db.rollback()\<close>: pending objects are dropped; the committed tables stay.\<close>

definition rollback :: "session \<Rightarrow> session" where
  "rollback db = expunge_pending db"

text \<open>The object added last, among the objects a commit flushed.\<close>

definition newest :: "'a list \<Rightarrow> 'a option" where
  "newest objs = first (rev objs)"

text \<open>
  \<open>db.refresh(obj)\<close>: load the object again by its primary key, which gives the row as
  it is stored. It raises when the engine cannot read, when the object was never stored
  and when its row is gone.
\<close>

definition refresh_user :: "session \<Rightarrow> user option \<Rightarrow> db_error + user" where
  "refresh_user db obj =
     (case refresh_fault db of
        Some e \<Rightarrow> Inl e
      | None \<Rightarrow>
          (case obj of
             None \<Rightarrow> Inl (InvalidRequestError ''Instance is not persistent within this Session'')
           | Some u \<Rightarrow>
               (case user_id u of
                  None \<Rightarrow>
                    Inl (InvalidRequestError ''Instance is not persistent within this Session'')
                | Some i \<Rightarrow>
                    (case first (filter (\<lambda>r. user_id r = Some i) (users (store db))) of
                       None \<Rightarrow> Inl (InvalidRequestError ''Could not refresh instance'')
                     | Some r \<Rightarrow> Inr r))))"

definition refresh_drive :: "session \<Rightarrow> drive option \<Rightarrow> db_error + drive" where
  "refresh_drive db obj =
     (case refresh_fault db of
        Some e \<Rightarrow> Inl e
      | None \<Rightarrow>
          (case obj of
             None \<Rightarrow> Inl (InvalidRequestError ''Instance is not persistent within this Session'')
           | Some x \<Rightarrow>
               (case drive_id x of
                  None \<Rightarrow>
                    Inl (InvalidRequestError ''Instance is not persistent within this Session'')
                | Some i \<Rightarrow>
                    (case first (filter (\<lambda>r. drive_id r = Some i) (drives (store db))) of
                       None \<Rightarrow> Inl (InvalidRequestError ''Could not refresh instance'')
                     | Some r \<Rightarrow> Inr r))))"

text \<open>
  The constructor calls of the program: \<open>User(full_name=..., email=...,
  hashed_password=..., account_type=...)\<close> and \<open>Drive(**drive.model_dump())\<close>. Neither
  sets the identifier.
\<close>

definition User :: "string \<Rightarrow> string \<Rightarrow> string \<Rightarrow> string \<Rightarrow> user" where
  "User full_name email hashed_password account_type =
     \<lparr>user_id = None,
      user_full_name = full_name,
      user_email = email,
      user_hashed_password = hashed_password,
      user_account_type = account_type,
      user_is_active = None\<rparr>"

definition Drive :: "drive_base \<Rightarrow> drive" where
  "Drive drv =
     \<lparr>drive_id = None,
      drive_company_id = base_company_id drv,
      drive_role = base_role drv,
      drive_package_lpa = Some (base_package_lpa drv),
      drive_deadline = base_deadline drv\<rparr>"

section \<open>The password context (passlib)\<close>

text \<open>
  \<open>pwd_context\<close> is passlib's \<open>CryptContext\<close> for bcrypt. The library is not part of the
  program; the operations take the context as a parameter, with the two entry points the
  program calls. Either may raise.
\<close>

record crypt_context =
  hash :: "string \<Rightarrow> error + string"
  verify :: "string \<Rightarrow> string \<Rightarrow> error + bool"

text \<open>
  The bcrypt handler as passlib documents it. A secret of more than 4096 bytes, and one
  that contains a NUL byte, is refused with a \<open>PasswordValueError\<close>. Only the first 72
  bytes of a secret go into the digest. A hash is the identifier \<open>$2b$12$\<close>, the 22
  characters of the salt drawn for it, and the digest. To verify, the digest is computed
  again from the secret and the salt found in the hash, and compared. The bcrypt function
  itself (salt and key to digest) and the salt that is drawn are parameters.
\<close>

definition refused_secret :: "string \<Rightarrow> error option" where
  "refused_secret secret =
     (if 4096 < length secret then
        Some (PasswordValueError ''password exceeds maximum allowed size'')
      else if CHR 0x00 \<in> set secret then
        Some (PasswordValueError ''bcrypt does not allow NULL bytes in password'')
      else None)"

definition parse_bcrypt :: "string \<Rightarrow> (string \<times> string) option" where
  "parse_bcrypt hashed =
     (if take 7 hashed = ''$2b$12$'' \<and> 29 \<le> length hashed then
        Some (take 22 (drop 7 hashed), drop 29 hashed)
      else None)"

definition bcrypt_hash :: "(string \<Rightarrow> string \<Rightarrow> string) \<Rightarrow> string \<Rightarrow> string \<Rightarrow> error + string" where
  "bcrypt_hash crypt salt secret =
     (case refused_secret secret of
        Some e \<Rightarrow> Inl e
      | None \<Rightarrow> Inr (''$2b$12$'' @ salt @ crypt salt (take 72 secret)))"

definition bcrypt_verify :: "(string \<Rightarrow> string \<Rightarrow> string) \<Rightarrow> string \<Rightarrow> string \<Rightarrow> error + bool" where
  "bcrypt_verify crypt secret hashed =
     (case parse_bcrypt hashed of
        None \<Rightarrow> Inl (UnknownHashError ''hash could not be identified'')
      | Some (salt, digest) \<Rightarrow>
          (case refused_secret secret of
             Some e \<Rightarrow> Inl e
           | None \<Rightarrow> Inr (crypt salt (take 72 secret) = digest)))"

definition bcrypt_context :: "(string \<Rightarrow> string \<Rightarrow> string) \<Rightarrow> string \<Rightarrow> crypt_context" where
  "bcrypt_context crypt salt = \<lparr>hash = bcrypt_hash crypt salt, verify = bcrypt_verify crypt\<rparr>"

section \<open>Access operations (app-utls.py)\<close>

definition verify_password :: "crypt_context \<Rightarrow> string \<Rightarrow> string \<Rightarrow> error + bool" where
  "verify_password pwd_context plain_password hashed_password =
     verify pwd_context plain_password hashed_password"

definition get_password_hash :: "crypt_context \<Rightarrow> string \<Rightarrow> error + string" where
  "get_password_hash pwd_context password = hash pwd_context password"

definition get_user_by_email :: "session \<Rightarrow> string \<Rightarrow> user option \<times> session" where
  "get_user_by_email db email =
     (let (rows, db') = query_users db
      in (first (filter (\<lambda>u. user_email u = email) rows), db'))"

text \<open>
  \<open>create_user\<close> hashes the password before it enters the \<open>try\<close>: an exception of the
  hashing leaves the function at once. Inside the \<open>try\<close>, an exception of \<open>commit\<close> or
  of \<open>refresh\<close> is answered by \<open>rollback\<close> and raised again.
\<close>

definition create_user ::
  "crypt_context \<Rightarrow> session \<Rightarrow> user_create \<Rightarrow> (error + user) \<times> session" where
  "create_user pwd_context db usr =
     (case get_password_hash pwd_context (create_password usr) of
        Inl e \<Rightarrow> (Inl e, db)
      | Inr hashed_password \<Rightarrow>
          (let db_user = User (create_full_name usr) (create_email usr) hashed_password
                           (create_account_type usr);
               db1 = add_user db db_user
           in case commit db1 of
                (Inl e, db2) \<Rightarrow> (Inl (DBError e), rollback db2)
              | (Inr (us, ds), db2) \<Rightarrow>
                  (case refresh_user db2 (newest us) of
                     Inl e \<Rightarrow> (Inl (DBError e), rollback db2)
                   | Inr u \<Rightarrow> (Inr u, db2))))"

definition get_drives_by_company_id ::
  "session \<Rightarrow> int \<Rightarrow> (error + drive list) \<times> session" where
  "get_drives_by_company_id db company_id =
     (case sqlite_integer company_id of
        Inl e \<Rightarrow> (Inl e, db)
      | Inr cid \<Rightarrow>
          (let (rows, db') = query_drives db
           in (Inr (filter (\<lambda>x. drive_company_id x = cid) rows), db')))"

record recommendation =
  role :: string
  match_score :: float

definition get_recommendations :: "int \<Rightarrow> recommendation list" where
  "get_recommendations uid =
     [\<lparr>role = ''Simulated Data Analyst'', match_score = 0.85\<rparr>,
      \<lparr>role = ''Simulated Software Engineer'', match_score = 0.79\<rparr>]"

section \<open>Request handlers (placement\_api.py)\<close>

text \<open>
  Building the response from an ORM object (\<open>response_model=UserSchema\<close> with
  \<open>from_attributes\<close>): the four declared fields are read, and an object without an
  identifier does not validate.
\<close>

definition UserSchema :: "user \<Rightarrow> error + user_schema" where
  "UserSchema u =
     (case user_id u of
        None \<Rightarrow> Inl (ValidationError ''id'')
      | Some i \<Rightarrow>
          Inr \<lparr>schema_id = i,
               schema_full_name = user_full_name u,
               schema_email = user_email u,
               schema_account_type = user_account_type u\<rparr>)"

definition register_user ::
  "crypt_context \<Rightarrow> session \<Rightarrow> user_create \<Rightarrow> (error + user) \<times> session" where
  "register_user pwd_context db usr =
     (let (db_user, db') = get_user_by_email db (create_email usr)
      in case db_user of
           Some _ \<Rightarrow> (Inl (HTTPException 400 ''Email already registered''), db')
         | None \<Rightarrow> create_user pwd_context db' usr)"

text \<open>
  \<open>login_user\<close> declares its body as a \<open>UserSchema\<close>. That schema has the fields
  \<open>id\<close>, \<open>full_name\<close>, \<open>email\<close> and \<open>account_type\<close>; keys of the request that it does
  not declare are dropped when it is validated. Reading \<open>user_data.password\<close> therefore
  raises \<open>AttributeError\<close>.
\<close>

definition UserSchema_password :: "user_schema \<Rightarrow> error + string" where
  "UserSchema_password user_data =
     Inl (AttributeError ''UserSchema object has no attribute password'')"

record login_response =
  message :: string
  login_user_id :: "int option"
  login_account_type :: string
  token :: string

definition login_user ::
  "crypt_context \<Rightarrow> session \<Rightarrow> user_schema \<Rightarrow> (error + login_response) \<times> session" where
  "login_user pwd_context db user_data =
     (let (db_user, db') = get_user_by_email db (schema_email user_data)
      in case db_user of
           None \<Rightarrow> (Inl (HTTPException 401 ''Invalid credentials''), db')
         | Some u \<Rightarrow>
             (case UserSchema_password user_data of
                Inl e \<Rightarrow> (Inl e, db')
              | Inr password \<Rightarrow>
                  (case verify_password pwd_context password (user_hashed_password u) of
                     Inl e \<Rightarrow> (Inl e, db')
                   | Inr matches \<Rightarrow>
                       if \<not> matches then
                         (Inl (HTTPException 401 ''Invalid credentials''), db')
                       else
                         (Inr \<lparr>message = ''Login successful'',
                               login_user_id = user_id u,
                               login_account_type = user_account_type u,
                               token = ''SIMULATED_TOKEN''\<rparr>, db'))))"

text \<open>
  \<open>create_drive\<close> has no \<open>try\<close>: an exception of the company query, of \<open>commit\<close> or of
  \<open>refresh\<close> leaves the function as it is.
\<close>

definition create_drive ::
  "session \<Rightarrow> drive_base \<Rightarrow> (error + drive option) \<times> session" where
  "create_drive db drv =
     (case sqlite_integer (base_company_id drv) of
        Inl e \<Rightarrow> (Inl e, db)
      | Inr cid \<Rightarrow>
          (let (rows, db0) = query_companies db;
               company = first (filter (\<lambda>c. co_id c = Some cid) rows)
           in case company of
                None \<Rightarrow> (Inl (HTTPException 404 ''Company ID not found.''), db0)
              | Some _ \<Rightarrow>
                  (let db_drive = Drive drv;
                       db1 = add_drive db0 db_drive
                   in case commit db1 of
                        (Inl e, db2) \<Rightarrow> (Inl (DBError e), db2)
                      | (Inr (us, ds), db2) \<Rightarrow>
                          (case refresh_drive db2 (newest ds) of
                             Inl e \<Rightarrow> (Inl (DBError e), db2)
                           | Inr x \<Rightarrow>
                               (let (rows', db3) = query_drives db2
                                in (Inr (first (filter (\<lambda>r. drive_id r = drive_id x) rows')),
                                    db3))))))"

definition get_drives_by_company ::
  "session \<Rightarrow> int \<Rightarrow> (error + drive list) \<times> session" where
  "get_drives_by_company db company_id =
     (case sqlite_integer company_id of
        Inl e \<Rightarrow> (Inl e, db)
      | Inr cid \<Rightarrow>
          (let (rows, db') = query_drives db;
               drvs = filter (\<lambda>x. drive_company_id x = cid) rows
           in if drvs = [] then
                (Inl (HTTPException 404 ''No drives found for this company.''), db')
              else (Inr drvs, db')))"

record recommendations_response =
  response_user_id :: int
  recommendations :: "recommendation list"

definition get_user_recommendations :: "int \<Rightarrow> recommendations_response" where
  "get_user_recommendations uid =
     (let recs = get_recommendations uid
      in \<lparr>response_user_id = uid, recommendations = recs\<rparr>)"

section \<open>Example data\<close>

text \<open>
  Concrete inputs for the examples that follow the theorems. \<open>example_crypt\<close> stands in
  for the bcrypt function where an example has to run one; it is not a hash. Every
  theorem about the program is stated for an arbitrary context, and every theorem about
  the bcrypt handler for an arbitrary bcrypt function.
\<close>

definition example_crypt :: "string \<Rightarrow> string \<Rightarrow> string" where
  "example_crypt salt key = take 31 (key @ salt @ ''.........'')"

definition example_salt :: string where
  "example_salt = ''abcdefghijklmnopqrstuv''"

definition example_context :: crypt_context where
  "example_context = bcrypt_context example_crypt example_salt"

definition example_db :: database where
  "example_db =
     \<lparr>users =
        [\<lparr>user_id = Some 1, user_full_name = ''Alice'', user_email = ''alice@example.com'',
          user_hashed_password = ''$2b$12$abcdefghijklmnopqrstuvwonderlandabcdefghijklmnopqrstu'',
          user_account_type = ''student'', user_is_active = Some True\<rparr>],
      companies =
        [\<lparr>co_id = Some 1, co_name = ''TechCorp Solutions'', co_industry = ''IT'',
          co_location = ''Pune''\<rparr>,
         \<lparr>co_id = Some 2, co_name = ''Acme'', co_industry = ''Retail'',
          co_location = ''Delhi''\<rparr>],
      drives =
        [\<lparr>drive_id = Some 1, drive_company_id = 1, drive_role = ''Software Intern'',
          drive_package_lpa = Some (Finite 6.5),
          drive_deadline = \<lparr>wall_clock = 1761955200, utcoffset = None\<rparr>\<rparr>],
      applications = []\<rparr>"

definition alice_again :: user_create where
  "alice_again =
     \<lparr>create_full_name = ''Alice Again'', create_email = ''alice@example.com'',
      create_password = ''rabbit'', create_account_type = ''recruiter''\<rparr>"

definition bob :: user_create where
  "bob =
     \<lparr>create_full_name = ''Bob'', create_email = ''bob@example.com'',
      create_password = ''builder'', create_account_type = ''tpo-admin''\<rparr>"

definition bob_row :: user where
  "bob_row =
     \<lparr>user_id = Some 2, user_full_name = ''Bob'', user_email = ''bob@example.com'',
      user_hashed_password = ''$2b$12$abcdefghijklmnopqrstuvbuilderabcdefghijklmnopqrstuv..'',
      user_account_type = ''tpo-admin'', user_is_active = Some True\<rparr>"

definition carol :: user_create where
  "carol =
     \<lparr>create_full_name = ''Carol'', create_email = ''carol@example.com'',
      create_password = [CHR ''p'', CHR 0x00, CHR ''w''], create_account_type = ''student''\<rparr>"

definition mallory :: user_create where
  "mallory =
     \<lparr>create_full_name = ''Mallory'', create_email = ''mallory@example.com'',
      create_password = ''secret'', create_account_type = ''superuser''\<rparr>"

definition analyst_drive :: "int \<Rightarrow> drive_base" where
  "analyst_drive company_id =
     \<lparr>base_company_id = company_id, base_role = ''Analyst'', base_package_lpa = Finite 7,
      base_deadline = \<lparr>wall_clock = 1764547200, utcoffset = Some 19800\<rparr>\<rparr>"

definition analyst_row :: drive where
  "analyst_row =
     \<lparr>drive_id = Some 2, drive_company_id = 2, drive_role = ''Analyst'',
      drive_package_lpa = Some (Finite 7),
      drive_deadline = \<lparr>wall_clock = 1764547200, utcoffset = None\<rparr>\<rparr>"

definition login_body :: "string \<Rightarrow> user_schema" where
  "login_body email =
     \<lparr>schema_id = 0, schema_full_name = ''Someone'', schema_email = email,
      schema_account_type = ''student''\<rparr>"

definition locked :: "session \<Rightarrow> session" where
  "locked db = db\<lparr>refresh_fault := Some (OperationalError ''database is locked'')\<rparr>"

lemmas example_defs =
  example_db_def example_context_def example_crypt_def example_salt_def
  bcrypt_context_def bcrypt_hash_def bcrypt_verify_def refused_secret_def parse_bcrypt_def
  alice_again_def bob_def bob_row_def carol_def mallory_def

section \<open>Lists, identifiers and the session\<close>

lemma first_simps [simp]: "first [] = None" "first (r # rows) = Some r"
  by (simp_all add: first_def)

lemma newest_snoc [simp]: "newest (xs @ [x]) = Some x"
  by (simp add: newest_def)

lemma first_filter_None: "first (filter P xs) = None \<longleftrightarrow> (\<forall>x\<in>set xs. \<not> P x)"
  by (induction xs) auto

lemma count_fresh_key:
  "e \<notin> set (map f xs) \<Longrightarrow> filter (\<lambda>x. f x = e) xs = []"
  by (induction xs) auto

lemma count_distinct_key:
  "distinct (map f xs) \<Longrightarrow> e \<in> set (map f xs) \<Longrightarrow> length (filter (\<lambda>x. f x = e) xs) = 1"
proof (induction xs)
  case Nil
  then show ?case by simp
next
  case (Cons x xs)
  show ?case
  proof (cases "f x = e")
    case True
    with Cons.prems have "e \<notin> f ` set xs" by auto
    then have "filter (\<lambda>x. f x = e) xs = []" by (induction xs) auto
    with True show ?thesis by simp
  next
    case False
    with Cons show ?thesis by auto
  qed
qed

lemma filter_key_nonempty:
  "k \<in> set (map f xs) \<Longrightarrow> filter (\<lambda>x. f x = k) xs \<noteq> []"
  by (induction xs) auto

lemma filter_id_fresh:
  "Some n \<notin> f ` set rows \<Longrightarrow> filter (\<lambda>r. f r = Some n) rows = []"
  by (induction rows) auto

lemma flush_snoc:
  "flush ins d (xs @ [x]) =
     (case flush ins d xs of
        Inl e \<Rightarrow> Inl e
      | Inr (d', xs') \<Rightarrow>
          (case ins d' x of Inl e \<Rightarrow> Inl e | Inr (d'', x') \<Rightarrow> Inr (d'', xs' @ [x'])))"
  by (induction xs arbitrary: d) (auto split: sum.splits prod.splits)

lemma fold_max_ge: "(i::int) \<le> fold max xs i"
proof (induction xs arbitrary: i)
  case Nil
  show ?case by simp
next
  case (Cons x xs)
  have "i \<le> max x i" by simp
  also have "\<dots> \<le> fold max xs (max x i)" by (rule Cons.IH)
  finally show ?case by simp
qed

lemma fold_max_mem: "(x::int) \<in> set xs \<Longrightarrow> x \<le> fold max xs i"
proof (induction xs arbitrary: i)
  case Nil
  then show ?case by simp
next
  case (Cons y ys)
  show ?case
  proof (cases "x = y")
    case True
    have "x \<le> max y i" using True by simp
    also have "\<dots> \<le> fold max ys (max y i)" by (rule fold_max_ge)
    finally show ?thesis by simp
  next
    case False
    with Cons.prems have "x \<in> set ys" by simp
    then show ?thesis using Cons.IH by simp
  qed
qed

lemma next_rowid_greater: "i \<in> set ids \<Longrightarrow> i < next_rowid ids"
proof (cases ids)
  case Nil
  assume "i \<in> set ids"
  with Nil show ?thesis by simp
next
  case (Cons j rest)
  assume "i \<in> set ids"
  with Cons have "i = j \<or> i \<in> set rest" by simp
  then have "i \<le> fold max rest j"
    using fold_max_ge [of j rest] fold_max_mem [of i rest j] by blast
  with Cons show ?thesis by (simp add: next_rowid_def)
qed

lemma next_rowid_fresh: "next_rowid ids \<notin> set ids"
  using next_rowid_greater [of "next_rowid ids" ids] by blast

lemma set_map_filter_id: "set (List.map_filter f xs) = {i. Some i \<in> f ` set xs}"
  by (induction xs) (auto split: option.splits)

lemma next_rowid_not_stored:
  "Some (next_rowid (List.map_filter f rows)) \<notin> f ` set rows"
  using next_rowid_fresh [of "List.map_filter f rows"] by (simp add: set_map_filter_id)

text \<open>One INSERT, and a flush of several.\<close>

lemma insert_user_new:
  assumes "user_id u = None" and "user_email u \<notin> set (map user_email (users d))"
  shows "insert_user d u =
           Inr (d\<lparr>users := users d @
                   [u\<lparr>user_id := Some (next_rowid (List.map_filter user_id (users d))),
                      user_is_active := Some (case user_is_active u of None \<Rightarrow> True | Some b \<Rightarrow> b)\<rparr>]\<rparr>,
                u\<lparr>user_id := Some (next_rowid (List.map_filter user_id (users d)))\<rparr>)"
  using assms by (simp add: insert_user_def Let_def)

lemma insert_user_stored:
  assumes "insert_user d u = Inr (d', obj)"
  shows "d' = d\<lparr>users := users d @
                [obj\<lparr>user_is_active := Some (case user_is_active u of None \<Rightarrow> True | Some b \<Rightarrow> b)\<rparr>]\<rparr>"
    and "user_id u = None \<Longrightarrow> user_id obj = Some (next_rowid (List.map_filter user_id (users d)))"
    and "user_id obj \<noteq> None"
    and "user_id obj \<notin> user_id ` set (users d)"
    and "user_email obj \<notin> user_email ` set (users d)"
    and "user_full_name obj = user_full_name u"
    and "user_email obj = user_email u"
    and "user_hashed_password obj = user_hashed_password u"
    and "user_account_type obj = user_account_type u"
  using assms next_rowid_not_stored [of user_id "users d"]
  by (auto simp: insert_user_def Let_def set_map_filter_id split: if_splits option.splits)

lemma insert_drive_new:
  assumes "drive_id x = None"
  shows "insert_drive d x =
           Inr (d\<lparr>drives := drives d @
                   [x\<lparr>drive_id := Some (next_rowid (List.map_filter drive_id (drives d))),
                      drive_package_lpa := sqlite_real (drive_package_lpa x),
                      drive_deadline := sqlite_datetime (drive_deadline x)\<rparr>]\<rparr>,
                x\<lparr>drive_id := Some (next_rowid (List.map_filter drive_id (drives d)))\<rparr>)"
  using assms by (simp add: insert_drive_def Let_def)

lemma insert_drive_users: "insert_drive d x = Inr (d', obj) \<Longrightarrow> users d' = users d"
  by (auto simp: insert_drive_def Let_def split: if_splits)

lemma flush_insert_drive_users:
  "flush insert_drive d xs = Inr (d', objs) \<Longrightarrow> users d' = users d"
proof (induction xs arbitrary: d d' objs)
  case Nil
  then show ?case by simp
next
  case (Cons x xs)
  then show ?case
    by (auto split: sum.splits prod.splits dest: insert_drive_users)
qed

lemma flush_insert_user_users:
  "flush insert_user d xs = Inr (d', objs) \<Longrightarrow> \<exists>new. users d' = users d @ new"
proof (induction xs arbitrary: d d' objs)
  case Nil
  then show ?case by simp
next
  case (Cons x xs)
  from Cons.prems obtain d1 obj objs' where
    i: "insert_user d x = Inr (d1, obj)" and f: "flush insert_user d1 xs = Inr (d', objs')"
    by (auto split: sum.splits prod.splits)
  from insert_user_stored(1) [OF i] obtain row where "users d1 = users d @ [row]"
    by (metis database.select_convs(1) database.surjective database.update_convs(1))
  moreover from Cons.IH [OF f] obtain new where "users d' = users d1 @ new" by blast
  ultimately show ?case by simp
qed

text \<open>Sessions.\<close>

lemma SessionLocal_sel [simp]:
  "store (SessionLocal d) = d" "new_users (SessionLocal d) = []" "new_drives (SessionLocal d) = []"
  "commit_fault (SessionLocal d) = None" "refresh_fault (SessionLocal d) = None"
  by (simp_all add: SessionLocal_def)

lemma expunge_pending_sel [simp]:
  "store (expunge_pending db) = store db" "new_users (expunge_pending db) = []"
  "new_drives (expunge_pending db) = []" "commit_fault (expunge_pending db) = commit_fault db"
  "refresh_fault (expunge_pending db) = refresh_fault db"
  by (simp_all add: expunge_pending_def)

lemma expunge_pending_idem [simp]:
  "expunge_pending (expunge_pending db) = expunge_pending db"
  "expunge_pending (add_user db u) = expunge_pending db"
  "expunge_pending (add_drive db x) = expunge_pending db"
  "expunge_pending (SessionLocal d) = SessionLocal d"
  "expunge_pending (db\<lparr>store := d\<rparr>) = (expunge_pending db)\<lparr>store := d\<rparr>"
  by (simp_all add: expunge_pending_def add_user_def add_drive_def SessionLocal_def)

lemma SessionLocal_store [simp]: "(SessionLocal d)\<lparr>store := d'\<rparr> = SessionLocal d'"
  by (simp add: SessionLocal_def)

lemma commit_failed:
  "commit db = (Inl e, db2) \<Longrightarrow> db2 = expunge_pending db"
  by (auto simp: commit_def split: option.splits sum.splits prod.splits)

lemma commit_add_user_Inr:
  assumes "commit (add_user db u) = (Inr (us, ds), db2)"
  obtains d' us' d1 obj d2 where
    "flush insert_user (store db) (new_users db) = Inr (d', us')"
    "insert_user d' u = Inr (d1, obj)"
    "us = us' @ [obj]"
    "users d2 = users d1"
    "db2 = (expunge_pending db)\<lparr>store := d2\<rparr>"
  using assms
  by (auto simp: commit_def add_user_def flush_snoc expunge_pending_def
      split: option.splits sum.splits prod.splits dest: flush_insert_drive_users)

lemma refresh_user_stored:
  assumes "refresh_fault db = None" and "user_id obj = Some n" and "user_id row = Some n"
    and "Some n \<notin> user_id ` set rows" and "users (store db) = rows @ [row]"
  shows "refresh_user db (Some obj) = Inr row"
  using assms by (simp add: refresh_user_def filter_id_fresh)

lemma refresh_user_fault:
  "refresh_fault db = Some e \<Longrightarrow> refresh_user db obj = Inl e"
  by (simp add: refresh_user_def)

lemma refresh_drive_stored:
  assumes "refresh_fault db = None" and "drive_id obj = Some n" and "drive_id row = Some n"
    and "Some n \<notin> drive_id ` set rows" and "drives (store db) = rows @ [row]"
  shows "refresh_drive db (Some obj) = Inr row"
  using assms by (simp add: refresh_drive_def filter_id_fresh)


section \<open>The operations, case by case\<close>

lemma get_user_by_email_None:
  "email \<notin> set (map user_email (users (store db))) \<Longrightarrow> get_user_by_email db email = (None, db)"
  by (simp add: get_user_by_email_def query_users_def count_fresh_key)

lemma get_user_by_email_Some:
  "email \<in> set (map user_email (users (store db))) \<Longrightarrow>
     \<exists>u. get_user_by_email db email = (Some u, db) \<and> u \<in> set (users (store db))
       \<and> user_email u = email"
proof -
  assume "email \<in> set (map user_email (users (store db)))"
  then have "first (filter (\<lambda>u. user_email u = email) (users (store db))) \<noteq> None"
    by (auto simp: first_filter_None)
  then obtain u rest where
    f: "filter (\<lambda>u. user_email u = email) (users (store db)) = u # rest"
    by (cases "filter (\<lambda>u. user_email u = email) (users (store db))") auto
  have "u \<in> set (filter (\<lambda>u. user_email u = email) (users (store db)))"
    unfolding f by simp
  then have "u \<in> set (users (store db)) \<and> user_email u = email" by simp
  then show ?thesis
    by (simp add: get_user_by_email_def query_users_def f)
qed

lemma create_user_hash_fails:
  assumes "get_password_hash ctx (create_password usr) = Inl e"
  shows "create_user ctx db usr = (Inl e, db)"
  using assms by (simp add: create_user_def)

lemma create_user_commit_fails:
  assumes "get_password_hash ctx (create_password usr) = Inr h"
    and "commit (add_user db (User (create_full_name usr) (create_email usr) h
           (create_account_type usr))) = (Inl e, db2)"
  shows "create_user ctx db usr = (Inl (DBError e), expunge_pending db)"
  using assms commit_failed [OF assms(2)]
  by (simp add: create_user_def Let_def rollback_def)

lemma create_user_commit_succeeds:
  assumes h: "get_password_hash ctx (create_password usr) = Inr h"
    and c: "commit (add_user db (User (create_full_name usr) (create_email usr) h
           (create_account_type usr))) = (Inr (us, ds), db2)"
  shows "\<exists>n. \<lparr>user_id = Some n,
              user_full_name = create_full_name usr,
              user_email = create_email usr,
              user_hashed_password = h,
              user_account_type = create_account_type usr,
              user_is_active = Some True\<rparr> \<in> set (users (store db2))
            \<and> Some n \<notin> user_id ` set (users (store db))
            \<and> (refresh_fault db = None \<longrightarrow>
                 create_user ctx db usr =
                   (Inr \<lparr>user_id = Some n,
                         user_full_name = create_full_name usr,
                         user_email = create_email usr,
                         user_hashed_password = h,
                         user_account_type = create_account_type usr,
                         user_is_active = Some True\<rparr>, db2))
            \<and> (\<forall>e. refresh_fault db = Some e \<longrightarrow>
                 create_user ctx db usr = (Inl (DBError e), db2))"
proof -
  let ?u = "User (create_full_name usr) (create_email usr) h (create_account_type usr)"
  from c obtain d' us' d1 obj d2 where
    f: "flush insert_user (store db) (new_users db) = Inr (d', us')" and
    i: "insert_user d' ?u = Inr (d1, obj)" and
    us: "us = us' @ [obj]" and
    tbl: "users d2 = users d1" and
    db2: "db2 = (expunge_pending db)\<lparr>store := d2\<rparr>"
    by (rule commit_add_user_Inr)
  have none: "user_id ?u = None" by (simp add: User_def)
  define n where "n = next_rowid (List.map_filter user_id (users d'))"
  define row where "row = obj\<lparr>user_is_active := Some True\<rparr>"
  have d1: "d1 = d'\<lparr>users := users d' @ [row]\<rparr>"
    using insert_user_stored(1) [OF i] by (simp add: row_def User_def)
  have id: "user_id obj = Some n"
    using insert_user_stored(2) [OF i none] by (simp add: n_def)
  have fresh: "Some n \<notin> user_id ` set (users d')"
    unfolding n_def by (rule next_rowid_not_stored)
  have row: "row = \<lparr>user_id = Some n,
                 user_full_name = create_full_name usr,
                 user_email = create_email usr,
                 user_hashed_password = h,
                 user_account_type = create_account_type usr,
                 user_is_active = Some True\<rparr>"
    using insert_user_stored(6-9) [OF i] id by (cases obj) (simp add: User_def row_def)
  have rows: "users (store db2) = users d' @ [row]"
    using tbl d1 db2 by simp
  have rf: "refresh_fault db2 = refresh_fault db"
    by (simp add: db2)
  have rb: "rollback db2 = db2"
    by (simp add: rollback_def db2 expunge_pending_def)
  have ok: "create_user ctx db usr = (Inr row, db2)" if "refresh_fault db = None"
  proof -
    have "refresh_user db2 (newest us) = Inr row"
      using refresh_user_stored [of db2 obj n row "users d'"] that rf id fresh rows
      by (simp add: us row_def)
    with h c show ?thesis by (simp add: create_user_def Let_def)
  qed
  have ko: "create_user ctx db usr = (Inl (DBError e), db2)" if "refresh_fault db = Some e" for e
  proof -
    have "refresh_user db2 (newest us) = Inl e"
      using that rf by (simp add: refresh_user_fault)
    with h c rb show ?thesis by (simp add: create_user_def Let_def)
  qed
  obtain old where "users d' = users (store db) @ old"
    using flush_insert_user_users [OF f] by blast
  with fresh have "Some n \<notin> user_id ` set (users (store db))" by auto
  moreover have "row \<in> set (users (store db2))" by (simp add: rows)
  ultimately show ?thesis using ok ko unfolding row by (intro exI [of _ n]) simp
qed

lemma commit_new_user_fresh:
  assumes "e \<notin> set (map user_email (users d))"
  shows "commit (add_user (SessionLocal d) (User f e h t)) =
           (Inr ([\<lparr>user_id = Some (next_rowid (List.map_filter user_id (users d))),
                   user_full_name = f, user_email = e, user_hashed_password = h,
                   user_account_type = t, user_is_active = None\<rparr>], []),
            SessionLocal
                  (d\<lparr>users := users d @
                      [\<lparr>user_id = Some (next_rowid (List.map_filter user_id (users d))),
                        user_full_name = f, user_email = e, user_hashed_password = h,
                        user_account_type = t, user_is_active = Some True\<rparr>]\<rparr>))"
proof -
  have "insert_user d (User f e h t) =
          Inr (d\<lparr>users := users d @
                   [\<lparr>user_id = Some (next_rowid (List.map_filter user_id (users d))),
                     user_full_name = f, user_email = e, user_hashed_password = h,
                     user_account_type = t, user_is_active = Some True\<rparr>]\<rparr>,
               \<lparr>user_id = Some (next_rowid (List.map_filter user_id (users d))),
                 user_full_name = f, user_email = e, user_hashed_password = h,
                 user_account_type = t, user_is_active = None\<rparr>)"
    using assms insert_user_new [of "User f e h t" d] by (simp add: User_def)
  then show ?thesis
    by (simp add: commit_def add_user_def SessionLocal_def expunge_pending_def)
qed

lemma create_user_fresh:
  assumes "create_email usr \<notin> set (map user_email (users d))"
    and "get_password_hash ctx (create_password usr) = Inr h"
  shows "create_user ctx (SessionLocal d) usr =
           (Inr \<lparr>user_id = Some (next_rowid (List.map_filter user_id (users d))),
                 user_full_name = create_full_name usr,
                 user_email = create_email usr,
                 user_hashed_password = h,
                 user_account_type = create_account_type usr,
                 user_is_active = Some True\<rparr>,
            SessionLocal
              (d\<lparr>users := users d @
                  [\<lparr>user_id = Some (next_rowid (List.map_filter user_id (users d))),
                    user_full_name = create_full_name usr,
                    user_email = create_email usr,
                    user_hashed_password = h,
                    user_account_type = create_account_type usr,
                    user_is_active = Some True\<rparr>]\<rparr>))"
proof -
  let ?n = "next_rowid (List.map_filter user_id (users d))"
  let ?row = "\<lparr>user_id = Some ?n,
                 user_full_name = create_full_name usr,
                 user_email = create_email usr,
                 user_hashed_password = h,
                 user_account_type = create_account_type usr,
                 user_is_active = Some True\<rparr>"
  let ?obj = "\<lparr>user_id = Some ?n,
                 user_full_name = create_full_name usr,
                 user_email = create_email usr,
                 user_hashed_password = h,
                 user_account_type = create_account_type usr,
                 user_is_active = None\<rparr>"
  have "refresh_user (SessionLocal (d\<lparr>users := users d @ [?row]\<rparr>)) (Some ?obj) = Inr ?row"
    by (rule refresh_user_stored [where n = ?n and rows = "users d"])
       (simp_all add: next_rowid_not_stored [of user_id "users d", simplified])
  then show ?thesis
    using commit_new_user_fresh [OF assms(1)] assms(2)
    by (simp add: create_user_def Let_def newest_def)
qed

lemma register_user_taken:
  assumes "create_email usr \<in> set (map user_email (users (store db)))"
  shows "register_user ctx db usr = (Inl (HTTPException 400 ''Email already registered''), db)"
  using get_user_by_email_Some [OF assms] by (auto simp: register_user_def)

lemma register_user_fresh:
  assumes "create_email usr \<notin> set (map user_email (users (store db)))"
  shows "register_user ctx db usr = create_user ctx db usr"
  using get_user_by_email_None [OF assms] by (simp add: register_user_def)

text \<open>
  The unique index on \<open>users.email\<close> as an invariant of the committed table: no
  operation on users breaks it, whatever the session holds and whatever the outcome.
\<close>

lemma insert_user_distinct:
  assumes "insert_user d u = Inr (d', obj)" and "distinct (map user_email (users d))"
  shows "distinct (map user_email (users d'))"
  using insert_user_stored(1) [OF assms(1)] insert_user_stored(5) [OF assms(1)] assms(2)
  by simp

lemma flush_insert_user_distinct:
  "flush insert_user d xs = Inr (d', objs) \<Longrightarrow> distinct (map user_email (users d)) \<Longrightarrow>
     distinct (map user_email (users d'))"
proof (induction xs arbitrary: d d' objs)
  case Nil
  then show ?case by simp
next
  case (Cons x xs)
  from Cons.prems(1) obtain d1 obj objs' where
    i: "insert_user d x = Inr (d1, obj)" and f: "flush insert_user d1 xs = Inr (d', objs')"
    by (auto split: sum.splits prod.splits)
  from insert_user_distinct [OF i Cons.prems(2)] Cons.IH [OF f] show ?case by simp
qed

lemma commit_distinct:
  assumes "distinct (map user_email (users (store db)))"
  shows "distinct (map user_email (users (store (snd (commit db)))))"
proof (cases "commit db")
  case (Pair r db2)
  show ?thesis
  proof (cases r)
    case (Inl e)
    with Pair commit_failed [of db e db2] assms show ?thesis by simp
  next
    case (Inr objs)
    with Pair obtain d1 us d2 ds where
      u: "flush insert_user (store db) (new_users db) = Inr (d1, us)" and
      x: "flush insert_drive d1 (new_drives db) = Inr (d2, ds)" and
      s: "store db2 = d2"
      by (auto simp: commit_def split: option.splits sum.splits prod.splits)
    from flush_insert_user_distinct [OF u assms] flush_insert_drive_users [OF x] s Pair
    show ?thesis by simp
  qed
qed

lemma create_user_distinct:
  assumes "distinct (map user_email (users (store db)))"
  shows "distinct (map user_email (users (store (snd (create_user ctx db usr)))))"
proof (cases "get_password_hash ctx (create_password usr)")
  case (Inl e)
  from create_user_hash_fails [OF Inl] assms show ?thesis by simp
next
  case (Inr h)
  let ?db1 = "add_user db (User (create_full_name usr) (create_email usr) h
           (create_account_type usr))"
  have s: "store (snd (create_user ctx db usr)) = store (snd (commit ?db1))"
    using Inr
    by (auto simp: create_user_def Let_def rollback_def split: sum.splits prod.splits)
  have "distinct (map user_email (users (store ?db1)))"
    using assms by (simp add: add_user_def)
  then show ?thesis unfolding s by (rule commit_distinct)
qed

lemma register_user_distinct:
  assumes "distinct (map user_email (users (store db)))"
  shows "distinct (map user_email (users (store (snd (register_user ctx db usr)))))"
proof (cases "create_email usr \<in> set (map user_email (users (store db)))")
  case True
  from register_user_taken [OF True] assms show ?thesis by simp
next
  case False
  from register_user_fresh [OF False] create_user_distinct [OF assms] show ?thesis by simp
qed


lemma sqlite_integer_Inr [simp]: "int64 i \<Longrightarrow> sqlite_integer i = Inr i"
  by (simp add: sqlite_integer_def)

lemma sqlite_integer_Inl [simp]:
  "\<not> int64 i \<Longrightarrow>
     sqlite_integer i = Inl (OverflowError ''Python int too large to convert to SQLite INTEGER'')"
  by (simp add: sqlite_integer_def)

lemma company_lookup_None:
  "Some cid \<notin> set (map co_id (companies (store db))) \<Longrightarrow>
     first (filter (\<lambda>c. co_id c = Some cid) (companies (store db))) = None"
  by (simp add: count_fresh_key)

lemma company_lookup_Some:
  "Some cid \<in> set (map co_id (companies (store db))) \<Longrightarrow>
     \<exists>c. first (filter (\<lambda>c. co_id c = Some cid) (companies (store db))) = Some c"
  using first_filter_None [of "\<lambda>c. co_id c = Some cid" "companies (store db)"] by auto

lemma create_drive_overflow:
  assumes "\<not> int64 (base_company_id drv)"
  shows "create_drive db drv =
           (Inl (OverflowError ''Python int too large to convert to SQLite INTEGER''), db)"
  using assms by (simp add: create_drive_def)

lemma create_drive_missing:
  assumes "int64 (base_company_id drv)"
    and "Some (base_company_id drv) \<notin> set (map co_id (companies (store db)))"
  shows "create_drive db drv = (Inl (HTTPException 404 ''Company ID not found.''), db)"
  using company_lookup_None [OF assms(2)] assms(1)
  by (simp add: create_drive_def query_companies_def)

lemma create_drive_existing:
  assumes "int64 (base_company_id drv)"
    and "Some (base_company_id drv) \<in> set (map co_id (companies d))"
  shows "create_drive (SessionLocal d) drv =
           (Inr (Some \<lparr>drive_id = Some (next_rowid (List.map_filter drive_id (drives d))),
                       drive_company_id = base_company_id drv,
                       drive_role = base_role drv,
                       drive_package_lpa = sqlite_real (Some (base_package_lpa drv)),
                       drive_deadline = sqlite_datetime (base_deadline drv)\<rparr>),
            SessionLocal
              (d\<lparr>drives := drives d @
                  [\<lparr>drive_id = Some (next_rowid (List.map_filter drive_id (drives d))),
                    drive_company_id = base_company_id drv,
                    drive_role = base_role drv,
                    drive_package_lpa = sqlite_real (Some (base_package_lpa drv)),
                    drive_deadline = sqlite_datetime (base_deadline drv)\<rparr>]\<rparr>))"
proof -
  define n where "n = next_rowid (List.map_filter drive_id (drives d))"
  define row where "row = \<lparr>drive_id = Some n,
                       drive_company_id = base_company_id drv,
                       drive_role = base_role drv,
                       drive_package_lpa = sqlite_real (Some (base_package_lpa drv)),
                       drive_deadline = sqlite_datetime (base_deadline drv)\<rparr>"
  define obj where "obj = (Drive drv)\<lparr>drive_id := Some n\<rparr>"
  define db2 where "db2 = SessionLocal (d\<lparr>drives := drives d @ [row]\<rparr>)"
  from assms(2) obtain c where
    c: "first (filter (\<lambda>c. co_id c = Some (base_company_id drv))
          (companies (store (SessionLocal d)))) = Some c"
    using company_lookup_Some [of "base_company_id drv" "SessionLocal d"] by auto
  have i: "insert_drive d (Drive drv) = Inr (d\<lparr>drives := drives d @ [row]\<rparr>, obj)"
    using insert_drive_new [of "Drive drv" d] by (simp add: Drive_def row_def obj_def n_def)
  have k: "commit (add_drive (SessionLocal d) (Drive drv)) = (Inr ([], [obj]), db2)"
    by (simp add: commit_def add_drive_def i db2_def SessionLocal_def expunge_pending_def)
  have fresh: "Some n \<notin> drive_id ` set (drives d)"
    unfolding n_def by (rule next_rowid_not_stored)
  have r: "refresh_drive db2 (newest [obj]) = Inr row"
    using refresh_drive_stored [of db2 obj n row "drives d"] fresh
    by (simp add: newest_def row_def obj_def db2_def)
  have q: "first (filter (\<lambda>r. drive_id r = drive_id row) (drives (store db2))) = Some row"
    using filter_id_fresh [OF fresh] by (simp add: db2_def row_def)
  show ?thesis
    unfolding n_def [symmetric] row_def [symmetric] db2_def [symmetric]
    using c k r q assms(1)
    by (simp add: create_drive_def query_companies_def query_drives_def Let_def)
qed

lemma get_drives_by_company_id_eq:
  "int64 company_id \<Longrightarrow>
     get_drives_by_company_id db company_id =
       (Inr (filter (\<lambda>x. drive_company_id x = company_id) (drives (store db))), db)"
  by (simp add: get_drives_by_company_id_def query_drives_def)

lemma login_user_unknown_email:
  assumes "schema_email user_data \<notin> set (map user_email (users (store db)))"
  shows "login_user ctx db user_data = (Inl (HTTPException 401 ''Invalid credentials''), db)"
  using get_user_by_email_None [OF assms] by (simp add: login_user_def)

lemma login_user_known_email:
  assumes "schema_email user_data \<in> set (map user_email (users (store db)))"
  shows "login_user ctx db user_data =
           (Inl (AttributeError ''UserSchema object has no attribute password''), db)"
  using get_user_by_email_Some [OF assms]
  by (auto simp: login_user_def UserSchema_password_def)

text \<open>The bcrypt handler.\<close>

lemma refused_secret_None:
  "length secret \<le> 4096 \<Longrightarrow> CHR 0x00 \<notin> set secret \<Longrightarrow> refused_secret secret = None"
  by (simp add: refused_secret_def)

lemma parse_bcrypt_hash:
  "length salt = 22 \<Longrightarrow> parse_bcrypt (''$2b$12$'' @ salt @ digest) = Some (salt, digest)"
  by (simp add: parse_bcrypt_def)

lemma bcrypt_hash_accepted:
  "length secret \<le> 4096 \<Longrightarrow> CHR 0x00 \<notin> set secret \<Longrightarrow>
     get_password_hash (bcrypt_context crypt salt) secret =
       Inr (''$2b$12$'' @ salt @ crypt salt (take 72 secret))"
  by (simp add: get_password_hash_def bcrypt_context_def bcrypt_hash_def refused_secret_None)

lemma bcrypt_hash_nul:
  "CHR 0x00 \<in> set secret \<Longrightarrow> \<exists>e. get_password_hash (bcrypt_context crypt salt) secret = Inl e"
  by (simp add: get_password_hash_def bcrypt_context_def bcrypt_hash_def refused_secret_def)

lemma bcrypt_verify_accepted:
  "length salt = 22 \<Longrightarrow> length secret \<le> 4096 \<Longrightarrow> CHR 0x00 \<notin> set secret \<Longrightarrow>
     verify_password (bcrypt_context crypt salt') secret (''$2b$12$'' @ salt @ digest) =
       Inr (crypt salt (take 72 secret) = digest)"
  using parse_bcrypt_hash [of salt digest]
  by (simp add: verify_password_def bcrypt_context_def bcrypt_verify_def refused_secret_None)


text \<open>The examples, evaluated once.\<close>

lemma example_next_user: "next_rowid (List.map_filter user_id (users example_db)) = 2"
  by (simp add: example_db_def next_rowid_def)

lemma example_next_drive: "next_rowid (List.map_filter drive_id (drives example_db)) = 2"
  by (simp add: example_db_def next_rowid_def)

lemma example_hash_bob:
  "get_password_hash example_context (create_password bob) = Inr (user_hashed_password bob_row)"
  by (simp add: get_password_hash_def example_defs)

lemma example_hash_mallory:
  "get_password_hash example_context (create_password mallory) =
     Inr ''$2b$12$abcdefghijklmnopqrstuvsecretabcdefghijklmnopqrstuv...''"
  by (simp add: get_password_hash_def example_defs)

lemma example_hash_carol:
  "get_password_hash example_context (create_password carol) =
     Inl (PasswordValueError ''bcrypt does not allow NULL bytes in password'')"
  by (simp add: get_password_hash_def example_defs)

lemma example_fresh:
  "create_email bob \<notin> set (map user_email (users example_db))"
  "create_email carol \<notin> set (map user_email (users example_db))"
  "create_email mallory \<notin> set (map user_email (users example_db))"
  "create_email alice_again \<in> set (map user_email (users example_db))"
  by (simp_all add: example_defs)

lemma example_create_bob:
  "create_user example_context (SessionLocal example_db) bob =
     (Inr bob_row, SessionLocal (example_db\<lparr>users := users example_db @ [bob_row]\<rparr>))"
  using create_user_fresh [OF example_fresh(1) example_hash_bob]
  by (simp add: example_next_user) (simp add: bob_def bob_row_def)

section \<open>Listing the drives of a company\<close>

text \<open>
  C1, as stated, fails. Company 2 of the example data has no drive: the access operation
  \<open>get_drives_by_company_id\<close> returns the empty list, and the exposed handler
  \<open>get_drives_by_company\<close> raises HTTP 404 for the same request. For the company
  identifier \<open>2^63\<close>, which no drive has either, both raise \<open>OverflowError\<close>.
\<close>

theorem list_drives_empty_counterexample:
  "get_drives_by_company_id (SessionLocal example_db) 2 = (Inr [], SessionLocal example_db)
   \<and> get_drives_by_company (SessionLocal example_db) 2 =
       (Inl (HTTPException 404 ''No drives found for this company.''), SessionLocal example_db)
   \<and> 2 ^ 63 \<notin> set (map drive_company_id (drives example_db))
   \<and> get_drives_by_company_id (SessionLocal example_db) (2 ^ 63) =
       (Inl (OverflowError ''Python int too large to convert to SQLite INTEGER''),
        SessionLocal example_db)
   \<and> get_drives_by_company (SessionLocal example_db) (2 ^ 63) =
       (Inl (OverflowError ''Python int too large to convert to SQLite INTEGER''),
        SessionLocal example_db)"
  by (simp add: get_drives_by_company_id_def get_drives_by_company_def query_drives_def
      sqlite_integer_def int64_def example_db_def)

text \<open>
  C1, amended. For every session and every \<open>company_id\<close> that fits a signed 64-bit
  integer: when no Drive row has that \<open>company_id\<close>, \<open>get_drives_by_company_id\<close>
  returns the empty list as a success, and the handler \<open>get_drives_by_company\<close> raises
  HTTP 404 ``No drives found for this company.''; when some row has it, both return the
  rows that have it, and there is at least one. For a \<open>company_id\<close> outside that range
  both raise \<open>OverflowError\<close>. The session is unchanged in every case.
\<close>

theorem list_drives_by_company:
  "(int64 company_id \<longrightarrow> company_id \<notin> set (map drive_company_id (drives (store db))) \<longrightarrow>
      get_drives_by_company_id db company_id = (Inr [], db)
      \<and> get_drives_by_company db company_id =
          (Inl (HTTPException 404 ''No drives found for this company.''), db))
   \<and> (int64 company_id \<longrightarrow> company_id \<in> set (map drive_company_id (drives (store db))) \<longrightarrow>
        filter (\<lambda>x. drive_company_id x = company_id) (drives (store db)) \<noteq> []
        \<and> get_drives_by_company_id db company_id =
            (Inr (filter (\<lambda>x. drive_company_id x = company_id) (drives (store db))), db)
        \<and> get_drives_by_company db company_id =
            (Inr (filter (\<lambda>x. drive_company_id x = company_id) (drives (store db))), db))
   \<and> (\<not> int64 company_id \<longrightarrow>
        get_drives_by_company_id db company_id =
          (Inl (OverflowError ''Python int too large to convert to SQLite INTEGER''), db)
        \<and> get_drives_by_company db company_id =
          (Inl (OverflowError ''Python int too large to convert to SQLite INTEGER''), db))"
proof (intro conjI impI)
  assume r: "int64 company_id"
    and "company_id \<notin> set (map drive_company_id (drives (store db)))"
  then have e: "filter (\<lambda>x. drive_company_id x = company_id) (drives (store db)) = []"
    by (simp add: count_fresh_key)
  show "get_drives_by_company_id db company_id = (Inr [], db)"
    by (simp add: get_drives_by_company_id_eq r e)
  show "get_drives_by_company db company_id =
          (Inl (HTTPException 404 ''No drives found for this company.''), db)"
    by (simp add: get_drives_by_company_def query_drives_def r e)
next
  assume r: "int64 company_id"
    and "company_id \<in> set (map drive_company_id (drives (store db)))"
  then show n: "filter (\<lambda>x. drive_company_id x = company_id) (drives (store db)) \<noteq> []"
    by (simp add: filter_key_nonempty)
  show "get_drives_by_company_id db company_id =
            (Inr (filter (\<lambda>x. drive_company_id x = company_id) (drives (store db))), db)"
    by (simp add: get_drives_by_company_id_eq r)
  show "get_drives_by_company db company_id =
            (Inr (filter (\<lambda>x. drive_company_id x = company_id) (drives (store db))), db)"
    by (simp add: get_drives_by_company_def query_drives_def r n)
next
  assume "\<not> int64 company_id"
  then show "get_drives_by_company_id db company_id =
          (Inl (OverflowError ''Python int too large to convert to SQLite INTEGER''), db)"
    and "get_drives_by_company db company_id =
          (Inl (OverflowError ''Python int too large to convert to SQLite INTEGER''), db)"
    by (simp_all add: get_drives_by_company_id_def get_drives_by_company_def)
qed

text \<open>
  The theorem at company 2 (no drive), at company 1 (one drive) and at \<open>-2^63 - 1\<close> of the
  example data.
\<close>

theorem list_drives_by_company_witness:
  "get_drives_by_company_id (SessionLocal example_db) 2 = (Inr [], SessionLocal example_db)
   \<and> get_drives_by_company (SessionLocal example_db) 2 =
       (Inl (HTTPException 404 ''No drives found for this company.''), SessionLocal example_db)
   \<and> get_drives_by_company (SessionLocal example_db) 1 =
       (Inr (drives example_db), SessionLocal example_db)
   \<and> get_drives_by_company (SessionLocal example_db) (- (2 ^ 63) - 1) =
       (Inl (OverflowError ''Python int too large to convert to SQLite INTEGER''),
        SessionLocal example_db)"
proof -
  have none: "2 \<notin> set (map drive_company_id (drives (store (SessionLocal example_db))))"
    by (simp add: example_db_def)
  have some: "1 \<in> set (map drive_company_id (drives (store (SessionLocal example_db))))"
    by (simp add: example_db_def)
  have l: "filter (\<lambda>x. drive_company_id x = 1) (drives example_db) = drives example_db"
    by (simp add: example_db_def)
  have r: "int64 1" "int64 2" "\<not> int64 (- (2 ^ 63) - 1)"
    by (simp_all add: int64_def)
  show ?thesis
    using list_drives_by_company [of 2 "SessionLocal example_db"]
      list_drives_by_company [of 1 "SessionLocal example_db"]
      list_drives_by_company [of "- (2 ^ 63) - 1" "SessionLocal example_db"] none some r l
    by simp
qed

section \<open>Registration and the uniqueness of the email\<close>

text \<open>
  C2, as stated, fails in its last part. Carol's email is not registered, but her password
  contains a NUL byte: the bcrypt handler refuses it, \<open>register_user\<close> raises that error
  and nothing is stored.
\<close>

theorem register_user_refused_password_counterexample:
  "create_email carol \<notin> set (map user_email (users example_db))
   \<and> register_user example_context (SessionLocal example_db) carol =
       (Inl (PasswordValueError ''bcrypt does not allow NULL bytes in password''),
        SessionLocal example_db)"
proof -
  have "create_email carol \<notin> set (map user_email (users (store (SessionLocal example_db))))"
    using example_fresh(2) by simp
  from register_user_fresh [OF this, of example_context]
    create_user_hash_fails [OF example_hash_carol, of "SessionLocal example_db"]
    example_fresh(2)
  show ?thesis by simp
qed

text \<open>
  C2, amended. If some User row already has the email of the registration input,
  \<open>register_user\<close> raises HTTP 400 ``Email already registered'' (the conflict error of
  the handler) and hands the session back as it was: nothing was added, nothing committed.
  Where the emails of the table are distinct, the table then holds exactly one row with
  that email.
  If no row has the email and the context hashes the password to \<open>h\<close>, the registration
  through a new session on an engine without faults succeeds: it returns the stored row,
  the table is the old one followed by that row, exactly one row has the email, and every
  later registration with the same email, whatever its other fields and whatever the
  password context, raises the same HTTP 400 and changes nothing.
  If no row has the email and the context refuses the password with \<open>e\<close>,
  \<open>register_user\<close> raises \<open>e\<close> and the session is as it was.
  Whatever the session and whatever the outcome, a table whose emails are distinct
  before \<open>register_user\<close> has distinct emails after it.
\<close>

theorem register_user_duplicate_email:
  "(create_email usr \<in> set (map user_email (users (store db))) \<longrightarrow>
      register_user ctx db usr = (Inl (HTTPException 400 ''Email already registered''), db)
      \<and> (distinct (map user_email (users (store db))) \<longrightarrow>
           length (filter (\<lambda>r. user_email r = create_email usr)
                     (users (store (snd (register_user ctx db usr))))) = 1))
   \<and> (create_email usr \<notin> set (map user_email (users d)) \<longrightarrow>
       get_password_hash ctx (create_password usr) = Inr h \<longrightarrow>
        (let row = \<lparr>user_id = Some (next_rowid (List.map_filter user_id (users d))),
                    user_full_name = create_full_name usr,
                    user_email = create_email usr,
                    user_hashed_password = h,
                    user_account_type = create_account_type usr,
                    user_is_active = Some True\<rparr>;
             d' = d\<lparr>users := users d @ [row]\<rparr>
         in register_user ctx (SessionLocal d) usr = (Inr row, SessionLocal d')
            \<and> length (filter (\<lambda>r. user_email r = create_email usr) (users d')) = 1
            \<and> (\<forall>ctx' usr'. create_email usr' = create_email usr \<longrightarrow>
                  register_user ctx' (SessionLocal d') usr' =
                    (Inl (HTTPException 400 ''Email already registered''), SessionLocal d'))))
   \<and> (create_email usr \<notin> set (map user_email (users (store db))) \<longrightarrow>
       get_password_hash ctx (create_password usr) = Inl e \<longrightarrow>
        register_user ctx db usr = (Inl e, db))
   \<and> (distinct (map user_email (users (store db))) \<longrightarrow>
        distinct (map user_email (users (store (snd (register_user ctx db usr))))))"
proof (intro conjI impI)
  assume "distinct (map user_email (users (store db)))"
  then show "distinct (map user_email (users (store (snd (register_user ctx db usr)))))"
    by (rule register_user_distinct)
next
  assume taken: "create_email usr \<in> set (map user_email (users (store db)))"
  show r: "register_user ctx db usr = (Inl (HTTPException 400 ''Email already registered''), db)"
    using taken by (rule register_user_taken)
  assume "distinct (map user_email (users (store db)))"
  then show "length (filter (\<lambda>r. user_email r = create_email usr)
                     (users (store (snd (register_user ctx db usr))))) = 1"
    using taken by (simp add: r count_distinct_key)
next
  assume "create_email usr \<notin> set (map user_email (users (store db)))"
    and "get_password_hash ctx (create_password usr) = Inl e"
  then show "register_user ctx db usr = (Inl e, db)"
    by (simp add: register_user_fresh create_user_hash_fails)
next
  assume fresh: "create_email usr \<notin> set (map user_email (users d))"
    and h: "get_password_hash ctx (create_password usr) = Inr h"
  define row where "row = \<lparr>user_id = Some (next_rowid (List.map_filter user_id (users d))),
                    user_full_name = create_full_name usr,
                    user_email = create_email usr,
                    user_hashed_password = h,
                    user_account_type = create_account_type usr,
                    user_is_active = Some True\<rparr>"
  define d' where "d' = d\<lparr>users := users d @ [row]\<rparr>"
  have 1: "register_user ctx (SessionLocal d) usr = (Inr row, SessionLocal d')"
    using fresh register_user_fresh [of usr "SessionLocal d" ctx] create_user_fresh [OF fresh h]
    by (simp add: row_def d'_def)
  have 2: "length (filter (\<lambda>r. user_email r = create_email usr) (users d')) = 1"
    using count_fresh_key [of "create_email usr" user_email "users d"] fresh
    by (simp add: d'_def row_def)
  have 3: "register_user ctx' (SessionLocal d') usr' =
             (Inl (HTTPException 400 ''Email already registered''), SessionLocal d')"
    if "create_email usr' = create_email usr" for ctx' usr'
    by (rule register_user_taken) (simp add: d'_def row_def that)
  from 1 2 3 show "let row = \<lparr>user_id = Some (next_rowid (List.map_filter user_id (users d))),
                    user_full_name = create_full_name usr,
                    user_email = create_email usr,
                    user_hashed_password = h,
                    user_account_type = create_account_type usr,
                    user_is_active = Some True\<rparr>;
             d' = d\<lparr>users := users d @ [row]\<rparr>
         in register_user ctx (SessionLocal d) usr = (Inr row, SessionLocal d')
            \<and> length (filter (\<lambda>r. user_email r = create_email usr) (users d')) = 1
            \<and> (\<forall>ctx' usr'. create_email usr' = create_email usr \<longrightarrow>
                  register_user ctx' (SessionLocal d') usr' =
                    (Inl (HTTPException 400 ''Email already registered''), SessionLocal d'))"
    unfolding Let_def row_def [symmetric] d'_def [symmetric] by blast
qed

text \<open>
  The theorem on the example data: Alice is registered already, Bob is not and his second
  registration is refused, Carol's password is refused.
\<close>

theorem register_user_duplicate_email_witness:
  "register_user example_context (SessionLocal example_db) alice_again =
     (Inl (HTTPException 400 ''Email already registered''), SessionLocal example_db)
   \<and> length (filter (\<lambda>r. user_email r = ''alice@example.com'')
              (users (store (snd (register_user example_context (SessionLocal example_db)
                 alice_again))))) = 1
   \<and> register_user example_context (SessionLocal example_db) bob =
       (Inr bob_row, SessionLocal (example_db\<lparr>users := users example_db @ [bob_row]\<rparr>))
   \<and> register_user example_context
         (SessionLocal (example_db\<lparr>users := users example_db @ [bob_row]\<rparr>)) bob =
       (Inl (HTTPException 400 ''Email already registered''),
        SessionLocal (example_db\<lparr>users := users example_db @ [bob_row]\<rparr>))
   \<and> register_user example_context (SessionLocal example_db) carol =
       (Inl (PasswordValueError ''bcrypt does not allow NULL bytes in password''),
        SessionLocal example_db)"
proof -
  have taken: "create_email alice_again \<in> set (map user_email (users (store (SessionLocal example_db))))"
    using example_fresh(4) by simp
  have uniq: "distinct (map user_email (users (store (SessionLocal example_db))))"
    by (simp add: example_defs)
  have fresh: "create_email carol \<notin> set (map user_email (users (store (SessionLocal example_db))))"
    using example_fresh(2) by simp
  have row: "\<lparr>user_id = Some 2, user_full_name = create_full_name bob,
      user_email = create_email bob, user_hashed_password = user_hashed_password bob_row,
      user_account_type = create_account_type bob, user_is_active = Some True\<rparr> = bob_row"
    by (simp add: bob_def bob_row_def)
  have a: "create_email alice_again = ''alice@example.com''"
    by (simp add: alice_again_def)
  from register_user_duplicate_email
            [where usr = alice_again and db = "SessionLocal example_db"
               and ctx = example_context] taken uniq
  have 1: "register_user example_context (SessionLocal example_db) alice_again =
     (Inl (HTTPException 400 ''Email already registered''), SessionLocal example_db)"
    and 2: "length (filter (\<lambda>r. user_email r = ''alice@example.com'')
              (users (store (snd (register_user example_context (SessionLocal example_db)
                 alice_again))))) = 1"
    unfolding a by blast+
  from register_user_duplicate_email
            [where usr = bob and ctx = example_context and d = example_db
               and h = "user_hashed_password bob_row"] example_fresh(1) example_hash_bob
  have 3: "register_user example_context (SessionLocal example_db) bob =
       (Inr bob_row, SessionLocal (example_db\<lparr>users := users example_db @ [bob_row]\<rparr>))"
    and 4: "register_user example_context
         (SessionLocal (example_db\<lparr>users := users example_db @ [bob_row]\<rparr>)) bob =
       (Inl (HTTPException 400 ''Email already registered''),
        SessionLocal (example_db\<lparr>users := users example_db @ [bob_row]\<rparr>))"
    by (simp_all add: Let_def example_next_user row)
  from register_user_duplicate_email
            [where usr = carol and db = "SessionLocal example_db" and ctx = example_context
               and e = "PasswordValueError ''bcrypt does not allow NULL bytes in password''"]
    fresh example_hash_carol
  have 5: "register_user example_context (SessionLocal example_db) carol =
       (Inl (PasswordValueError ''bcrypt does not allow NULL bytes in password''),
        SessionLocal example_db)"
    by blast
  from 1 2 3 4 5 show ?thesis by blast
qed


section \<open>Creating a drive\<close>

text \<open>
  C3, as stated, fails in its first part. No company of the example data has the
  identifier \<open>2^63\<close>, yet \<open>create_drive\<close> does not raise HTTP 404 for it: the company
  query raises \<open>OverflowError\<close>.
\<close>

theorem create_drive_overflow_counterexample:
  "Some (2 ^ 63) \<notin> set (map co_id (companies example_db))
   \<and> create_drive (SessionLocal example_db) (analyst_drive (2 ^ 63)) =
       (Inl (OverflowError ''Python int too large to convert to SQLite INTEGER''),
        SessionLocal example_db)"
  by (simp add: create_drive_def sqlite_integer_def int64_def analyst_drive_def example_db_def)

text \<open>
  C3, amended. If the \<open>company_id\<close> of the input does not fit a signed 64-bit integer,
  \<open>create_drive\<close> raises \<open>OverflowError\<close> and the session is unchanged. If it fits and
  no Company row has it, \<open>create_drive\<close> raises HTTP 404 ``Company ID not found.'' and
  the session, with its Drive table, is unchanged. If it fits and some Company row has it,
  \<open>create_drive\<close> on a new session on an engine without faults appends one Drive row,
  commits it, and returns that row: it has a fresh identifier, the company and the role of
  the input, and the package and the deadline as SQLite stores them (NULL for NaN, the
  deadline without its UTC offset).
\<close>

theorem create_drive_checks_company:
  "(\<not> int64 (base_company_id drv) \<longrightarrow>
      create_drive db drv =
        (Inl (OverflowError ''Python int too large to convert to SQLite INTEGER''), db))
   \<and> (int64 (base_company_id drv) \<longrightarrow>
       Some (base_company_id drv) \<notin> set (map co_id (companies (store db))) \<longrightarrow>
        create_drive db drv = (Inl (HTTPException 404 ''Company ID not found.''), db)
        \<and> drives (store (snd (create_drive db drv))) = drives (store db))
   \<and> (int64 (base_company_id drv) \<longrightarrow>
       Some (base_company_id drv) \<in> set (map co_id (companies d)) \<longrightarrow>
        (let row = \<lparr>drive_id = Some (next_rowid (List.map_filter drive_id (drives d))),
                    drive_company_id = base_company_id drv,
                    drive_role = base_role drv,
                    drive_package_lpa =
                      (if base_package_lpa drv = NaN then None else Some (base_package_lpa drv)),
                    drive_deadline = (base_deadline drv)\<lparr>utcoffset := None\<rparr>\<rparr>
         in create_drive (SessionLocal d) drv =
              (Inr (Some row), SessionLocal (d\<lparr>drives := drives d @ [row]\<rparr>))
            \<and> drive_id row \<notin> set (map drive_id (drives d))))"
proof (intro conjI impI)
  assume "\<not> int64 (base_company_id drv)"
  then show "create_drive db drv =
        (Inl (OverflowError ''Python int too large to convert to SQLite INTEGER''), db)"
    by (rule create_drive_overflow)
next
  assume "int64 (base_company_id drv)"
    and "Some (base_company_id drv) \<notin> set (map co_id (companies (store db)))"
  then show r: "create_drive db drv = (Inl (HTTPException 404 ''Company ID not found.''), db)"
    by (rule create_drive_missing)
  show "drives (store (snd (create_drive db drv))) = drives (store db)"
    by (simp add: r)
next
  assume i: "int64 (base_company_id drv)"
    and e: "Some (base_company_id drv) \<in> set (map co_id (companies d))"
  have "Some (next_rowid (List.map_filter drive_id (drives d))) \<notin> drive_id ` set (drives d)"
    by (rule next_rowid_not_stored)
  with create_drive_existing [OF i e]
  show "let row = \<lparr>drive_id = Some (next_rowid (List.map_filter drive_id (drives d))),
                    drive_company_id = base_company_id drv,
                    drive_role = base_role drv,
                    drive_package_lpa =
                      (if base_package_lpa drv = NaN then None else Some (base_package_lpa drv)),
                    drive_deadline = (base_deadline drv)\<lparr>utcoffset := None\<rparr>\<rparr>
         in create_drive (SessionLocal d) drv =
              (Inr (Some row), SessionLocal (d\<lparr>drives := drives d @ [row]\<rparr>))
            \<and> drive_id row \<notin> set (map drive_id (drives d))"
    by (simp add: Let_def sqlite_real_def sqlite_datetime_def)
qed

text \<open>
  The theorem at company 999999, which does not exist, at company 2, which does, and at
  \<open>2^64\<close>. The deadline of the input has a UTC offset; the row that is returned has none.
\<close>

theorem create_drive_checks_company_witness:
  "create_drive (SessionLocal example_db) (analyst_drive 999999) =
     (Inl (HTTPException 404 ''Company ID not found.''), SessionLocal example_db)
   \<and> create_drive (SessionLocal example_db) (analyst_drive 2) =
       (Inr (Some analyst_row),
        SessionLocal (example_db\<lparr>drives := drives example_db @ [analyst_row]\<rparr>))
   \<and> create_drive (SessionLocal example_db) (analyst_drive (2 ^ 64)) =
       (Inl (OverflowError ''Python int too large to convert to SQLite INTEGER''),
        SessionLocal example_db)"
proof -
  have missing: "Some (base_company_id (analyst_drive 999999))
      \<notin> set (map co_id (companies (store (SessionLocal example_db))))"
    by (simp add: example_db_def analyst_drive_def)
  have existing: "Some (base_company_id (analyst_drive 2)) \<in> set (map co_id (companies example_db))"
    by (simp add: example_db_def analyst_drive_def)
  have r: "int64 (base_company_id (analyst_drive 999999))"
    "int64 (base_company_id (analyst_drive 2))" "\<not> int64 (base_company_id (analyst_drive (2 ^ 64)))"
    by (simp_all add: int64_def analyst_drive_def)
  have row: "\<lparr>drive_id = Some 2,
                    drive_company_id = base_company_id (analyst_drive 2),
                    drive_role = base_role (analyst_drive 2),
                    drive_package_lpa =
                      (if base_package_lpa (analyst_drive 2) = NaN then None
                       else Some (base_package_lpa (analyst_drive 2))),
                    drive_deadline = (base_deadline (analyst_drive 2))\<lparr>utcoffset := None\<rparr>\<rparr>
      = analyst_row"
    by (simp add: analyst_drive_def analyst_row_def)
  from create_drive_checks_company [where drv = "analyst_drive 999999"
      and db = "SessionLocal example_db"] missing r(1)
  have 1: "create_drive (SessionLocal example_db) (analyst_drive 999999) =
     (Inl (HTTPException 404 ''Company ID not found.''), SessionLocal example_db)"
    by blast
  from create_drive_checks_company [where drv = "analyst_drive 2" and d = example_db]
    existing r(2)
  have 2: "create_drive (SessionLocal example_db) (analyst_drive 2) =
       (Inr (Some analyst_row),
        SessionLocal (example_db\<lparr>drives := drives example_db @ [analyst_row]\<rparr>))"
    by (simp add: Let_def example_next_drive row)
  from create_drive_checks_company [where drv = "analyst_drive (2 ^ 64)"
      and db = "SessionLocal example_db"] r(3)
  have 3: "create_drive (SessionLocal example_db) (analyst_drive (2 ^ 64)) =
       (Inl (OverflowError ''Python int too large to convert to SQLite INTEGER''),
        SessionLocal example_db)"
    by blast
  from 1 2 3 show ?thesis by blast
qed

section \<open>A failure inside \<open>create_user\<close>\<close>

text \<open>
  C4, as stated, fails where the reload of the row fails. On a session whose engine
  commits but cannot read afterwards, \<open>create_user\<close> for Bob raises the engine's error,
  and the committed user table has gained Bob's row: the database state is not unchanged.
\<close>

theorem create_user_refresh_fails_counterexample:
  "fst (create_user example_context (locked (SessionLocal example_db)) bob) =
     Inl (DBError (OperationalError ''database is locked''))
   \<and> users (store (locked (SessionLocal example_db))) = users example_db
   \<and> users (store (snd (create_user example_context (locked (SessionLocal example_db)) bob))) =
       users example_db @ [bob_row]"
proof -
  let ?db = "locked (SessionLocal example_db)"
  let ?u = "User (create_full_name bob) (create_email bob) (user_hashed_password bob_row)
              (create_account_type bob)"
  have i: "insert_user example_db ?u =
      Inr (example_db\<lparr>users := users example_db @ [bob_row]\<rparr>, bob_row\<lparr>user_is_active := None\<rparr>)"
    using insert_user_new [of ?u example_db] example_fresh(1)
    by (simp add: User_def example_next_user) (simp add: bob_def bob_row_def)
  have c: "commit (add_user ?db ?u) =
      (Inr ([bob_row\<lparr>user_is_active := None\<rparr>], []),
       locked (SessionLocal (example_db\<lparr>users := users example_db @ [bob_row]\<rparr>)))"
    by (simp add: commit_def add_user_def locked_def SessionLocal_def expunge_pending_def i)
  have f: "refresh_fault ?db = Some (OperationalError ''database is locked'')"
    by (simp add: locked_def)
  from create_user_commit_succeeds [OF example_hash_bob c] f
  have "create_user example_context ?db bob =
      (Inl (DBError (OperationalError ''database is locked'')),
       locked (SessionLocal (example_db\<lparr>users := users example_db @ [bob_row]\<rparr>)))"
    by blast
  then show ?thesis by (simp add: locked_def)
qed

text \<open>
  C4, amended. For every session, every password context and every registration input.
  If hashing the password raises, \<open>create_user\<close> raises that error and the session is
  untouched. If the commit of the new object raises \<open>e\<close>, \<open>create_user\<close> raises that
  same \<open>e\<close>, the committed tables are the ones it started from and no object is left
  pending (the rollback). If the commit succeeds, the new row, with the fields of the
  input, the active flag set and an identifier that no row had before, is in the
  committed table; \<open>create_user\<close> then returns that row when the reload succeeds, and
  when the reload raises \<open>e'\<close> it raises \<open>e'\<close> while the row stays committed. In no case
  does it return a user without an identifier or one that is not stored.
\<close>

theorem create_user_rollback_or_row:
  "(get_password_hash ctx (create_password usr) = Inl err \<longrightarrow>
      create_user ctx db usr = (Inl err, db))
   \<and> (get_password_hash ctx (create_password usr) = Inr h \<longrightarrow>
       commit (add_user db (User (create_full_name usr) (create_email usr) h
                 (create_account_type usr))) = (Inl e, db2) \<longrightarrow>
        create_user ctx db usr = (Inl (DBError e), rollback db)
        \<and> store (snd (create_user ctx db usr)) = store db
        \<and> new_users (snd (create_user ctx db usr)) = []
        \<and> new_drives (snd (create_user ctx db usr)) = [])
   \<and> (get_password_hash ctx (create_password usr) = Inr h \<longrightarrow>
       commit (add_user db (User (create_full_name usr) (create_email usr) h
                 (create_account_type usr))) = (Inr (us, ds), db2) \<longrightarrow>
        (\<exists>n. \<lparr>user_id = Some n,
                user_full_name = create_full_name usr,
                user_email = create_email usr,
                user_hashed_password = h,
                user_account_type = create_account_type usr,
                user_is_active = Some True\<rparr> \<in> set (users (store db2))
              \<and> Some n \<notin> user_id ` set (users (store db))
              \<and> (refresh_fault db = None \<longrightarrow>
                   create_user ctx db usr =
                     (Inr \<lparr>user_id = Some n,
                           user_full_name = create_full_name usr,
                           user_email = create_email usr,
                           user_hashed_password = h,
                           user_account_type = create_account_type usr,
                           user_is_active = Some True\<rparr>, db2))
              \<and> (\<forall>e'. refresh_fault db = Some e' \<longrightarrow>
                   create_user ctx db usr = (Inl (DBError e'), db2))))
   \<and> (\<forall>u db'. create_user ctx db usr = (Inr u, db') \<longrightarrow>
          user_id u \<noteq> None \<and> user_is_active u \<noteq> None \<and> u \<in> set (users (store db')))"
proof (intro conjI impI allI)
  let ?c = "\<lambda>h. commit (add_user db (User (create_full_name usr) (create_email usr) h
                 (create_account_type usr)))"
  {
    assume "get_password_hash ctx (create_password usr) = Inl err"
    then show "create_user ctx db usr = (Inl err, db)"
      by (rule create_user_hash_fails)
  }
  {
    assume "get_password_hash ctx (create_password usr) = Inr h" and "?c h = (Inl e, db2)"
    then have r: "create_user ctx db usr = (Inl (DBError e), expunge_pending db)"
      by (rule create_user_commit_fails)
    show "create_user ctx db usr = (Inl (DBError e), rollback db)"
      by (simp add: r rollback_def)
    show "store (snd (create_user ctx db usr)) = store db" by (simp add: r)
    show "new_users (snd (create_user ctx db usr)) = []" by (simp add: r)
    show "new_drives (snd (create_user ctx db usr)) = []" by (simp add: r)
  }
  {
    assume "get_password_hash ctx (create_password usr) = Inr h"
      and "?c h = (Inr (us, ds), db2)"
    then show "\<exists>n. \<lparr>user_id = Some n,
                user_full_name = create_full_name usr,
                user_email = create_email usr,
                user_hashed_password = h,
                user_account_type = create_account_type usr,
                user_is_active = Some True\<rparr> \<in> set (users (store db2))
              \<and> Some n \<notin> user_id ` set (users (store db))
              \<and> (refresh_fault db = None \<longrightarrow>
                   create_user ctx db usr =
                     (Inr \<lparr>user_id = Some n,
                           user_full_name = create_full_name usr,
                           user_email = create_email usr,
                           user_hashed_password = h,
                           user_account_type = create_account_type usr,
                           user_is_active = Some True\<rparr>, db2))
              \<and> (\<forall>e'. refresh_fault db = Some e' \<longrightarrow>
                   create_user ctx db usr = (Inl (DBError e'), db2))"
      by (rule create_user_commit_succeeds)
  }
  fix u db'
  assume ok: "create_user ctx db usr = (Inr u, db')"
  have "user_id u \<noteq> None \<and> user_is_active u \<noteq> None \<and> u \<in> set (users (store db'))"
  proof (cases "get_password_hash ctx (create_password usr)")
    case (Inl x)
    from create_user_hash_fails [OF Inl, of db] ok show ?thesis by simp
  next
    case (Inr x)
    show ?thesis
    proof (cases "?c x")
      case (Pair r s2)
      show ?thesis
      proof (cases r)
        case (Inl y)
        with Pair have "?c x = (Inl y, s2)" by simp
        from create_user_commit_fails [OF Inr this] ok show ?thesis by simp
      next
        case (Inr objs)
        obtain us2 ds2 where "objs = (us2, ds2)" by (cases objs)
        with Pair Inr have c: "?c x = (Inr (us2, ds2), s2)" by simp
        from create_user_commit_succeeds [OF \<open>get_password_hash ctx (create_password usr) = Inr x\<close> c]
        obtain n where
          m: "\<lparr>user_id = Some n,
                user_full_name = create_full_name usr,
                user_email = create_email usr,
                user_hashed_password = x,
                user_account_type = create_account_type usr,
                user_is_active = Some True\<rparr> \<in> set (users (store s2))" and
          a: "refresh_fault db = None \<longrightarrow>
                   create_user ctx db usr =
                     (Inr \<lparr>user_id = Some n,
                           user_full_name = create_full_name usr,
                           user_email = create_email usr,
                           user_hashed_password = x,
                           user_account_type = create_account_type usr,
                           user_is_active = Some True\<rparr>, s2)" and
          b: "\<forall>e'. refresh_fault db = Some e' \<longrightarrow>
                   create_user ctx db usr = (Inl (DBError e'), s2)"
          by (elim exE conjE) simp
        show ?thesis
        proof (cases "refresh_fault db")
          case None
          with a ok m show ?thesis by auto
        next
          case (Some e')
          with b ok show ?thesis by simp
        qed
      qed
    qed
  qed
  then show "user_id u \<noteq> None" and "user_is_active u \<noteq> None"
    and "u \<in> set (users (store db'))" by simp_all
qed


text \<open>
  The theorem on the example data: Carol's password is refused; Alice's email is taken, so
  the commit raises, nothing is committed and the drive that was pending is gone; Bob is
  stored with identifier 2; on the engine that cannot read after the commit, Bob's row is
  committed and the error is raised.
\<close>

theorem create_user_rollback_or_row_witness:
  "create_user example_context (SessionLocal example_db) carol =
     (Inl (PasswordValueError ''bcrypt does not allow NULL bytes in password''),
      SessionLocal example_db)
   \<and> create_user example_context
         (add_drive (SessionLocal example_db) (Drive (analyst_drive 2))) alice_again =
       (Inl (DBError (IntegrityError ''UNIQUE constraint failed: users.email'')),
        SessionLocal example_db)
   \<and> create_user example_context (SessionLocal example_db) bob =
       (Inr bob_row, SessionLocal (example_db\<lparr>users := users example_db @ [bob_row]\<rparr>))
   \<and> create_user example_context (locked (SessionLocal example_db)) bob =
       (Inl (DBError (OperationalError ''database is locked'')),
        locked (SessionLocal (example_db\<lparr>users := users example_db @ [bob_row]\<rparr>)))"
proof -
  let ?pending = "add_drive (SessionLocal example_db) (Drive (analyst_drive 2))"
  let ?bob = "User (create_full_name bob) (create_email bob) (user_hashed_password bob_row)
                (create_account_type bob)"
  let ?stored = "example_db\<lparr>users := users example_db @ [bob_row]\<rparr>"
  have ha: "get_password_hash example_context (create_password alice_again) =
      Inr ''$2b$12$abcdefghijklmnopqrstuvrabbitabcdefghijklmnopqrstuv...''"
    by (simp add: get_password_hash_def example_defs)
  have fails: "commit (add_user ?pending
          (User (create_full_name alice_again) (create_email alice_again)
             ''$2b$12$abcdefghijklmnopqrstuvrabbitabcdefghijklmnopqrstuv...''
             (create_account_type alice_again)))
        = (Inl (IntegrityError ''UNIQUE constraint failed: users.email''),
           SessionLocal example_db)"
    by (simp add: commit_def add_user_def add_drive_def insert_user_def User_def Let_def
        SessionLocal_def expunge_pending_def alice_again_def example_db_def)
  have rb: "rollback ?pending = SessionLocal example_db"
    by (simp add: rollback_def)
  have i: "insert_user example_db ?bob = Inr (?stored, bob_row\<lparr>user_is_active := None\<rparr>)"
    using insert_user_new [of ?bob example_db] example_fresh(1)
    by (simp add: User_def example_next_user) (simp add: bob_def bob_row_def)
  have c1: "commit (add_user (SessionLocal example_db) ?bob) =
      (Inr ([bob_row\<lparr>user_is_active := None\<rparr>], []), SessionLocal ?stored)"
    by (simp add: commit_def add_user_def SessionLocal_def expunge_pending_def i)
  have c2: "commit (add_user (locked (SessionLocal example_db)) ?bob) =
      (Inr ([bob_row\<lparr>user_is_active := None\<rparr>], []), locked (SessionLocal ?stored))"
    by (simp add: commit_def add_user_def locked_def SessionLocal_def expunge_pending_def i)
  have f: "refresh_fault (SessionLocal example_db) = None"
    "refresh_fault (locked (SessionLocal example_db)) = Some (OperationalError ''database is locked'')"
    by (simp_all add: locked_def)
  have row: "\<lparr>user_id = Some n,
                user_full_name = create_full_name bob,
                user_email = create_email bob,
                user_hashed_password = user_hashed_password bob_row,
                user_account_type = create_account_type bob,
                user_is_active = Some True\<rparr> \<in> set (users ?stored) \<Longrightarrow>
             \<lparr>user_id = Some n,
                user_full_name = create_full_name bob,
                user_email = create_email bob,
                user_hashed_password = user_hashed_password bob_row,
                user_account_type = create_account_type bob,
                user_is_active = Some True\<rparr> = bob_row" for n
    by (simp add: example_db_def bob_def bob_row_def)
  from create_user_rollback_or_row [where ctx = example_context and usr = carol
      and db = "SessionLocal example_db"
      and err = "PasswordValueError ''bcrypt does not allow NULL bytes in password''"]
    example_hash_carol
  have 1: "create_user example_context (SessionLocal example_db) carol =
     (Inl (PasswordValueError ''bcrypt does not allow NULL bytes in password''),
      SessionLocal example_db)"
    by blast
  from create_user_rollback_or_row [where ctx = example_context and usr = alice_again
      and db = ?pending
      and h = "''$2b$12$abcdefghijklmnopqrstuvrabbitabcdefghijklmnopqrstuv...''"
      and e = "IntegrityError ''UNIQUE constraint failed: users.email''"
      and ?db2.0 = "SessionLocal example_db"] ha fails rb
  have 2: "create_user example_context ?pending alice_again =
       (Inl (DBError (IntegrityError ''UNIQUE constraint failed: users.email'')),
        SessionLocal example_db)"
    by simp
  note t3 = create_user_rollback_or_row [where ctx = example_context and usr = bob
      and db = "SessionLocal example_db" and h = "user_hashed_password bob_row"
      and us = "[bob_row\<lparr>user_is_active := None\<rparr>]" and ds = "[]"
      and ?db2.0 = "SessionLocal ?stored"]
  from t3 [THEN conjunct2, THEN conjunct2, THEN conjunct1, rule_format, OF example_hash_bob c1]
  obtain n where m: "\<lparr>user_id = Some n,
                user_full_name = create_full_name bob,
                user_email = create_email bob,
                user_hashed_password = user_hashed_password bob_row,
                user_account_type = create_account_type bob,
                user_is_active = Some True\<rparr> \<in> set (users (store (SessionLocal ?stored)))"
     and a: "refresh_fault (SessionLocal example_db) = None \<longrightarrow>
             create_user example_context (SessionLocal example_db) bob =
                     (Inr \<lparr>user_id = Some n,
                           user_full_name = create_full_name bob,
                           user_email = create_email bob,
                           user_hashed_password = user_hashed_password bob_row,
                           user_account_type = create_account_type bob,
                           user_is_active = Some True\<rparr>, SessionLocal ?stored)"
    by (elim exE conjE) simp
  from m a f(1) row [of n]
  have 3: "create_user example_context (SessionLocal example_db) bob =
       (Inr bob_row, SessionLocal ?stored)"
    by simp
  note t4 = create_user_rollback_or_row [where ctx = example_context and usr = bob
      and db = "locked (SessionLocal example_db)" and h = "user_hashed_password bob_row"
      and us = "[bob_row\<lparr>user_is_active := None\<rparr>]" and ds = "[]"
      and ?db2.0 = "locked (SessionLocal ?stored)"]
  from t4 [THEN conjunct2, THEN conjunct2, THEN conjunct1, rule_format, OF example_hash_bob c2]
  obtain n' where "\<forall>e'. refresh_fault (locked (SessionLocal example_db)) = Some e' \<longrightarrow>
             create_user example_context (locked (SessionLocal example_db)) bob =
               (Inl (DBError e'), locked (SessionLocal ?stored))"
    by (elim exE conjE) simp
  with f(2)
  have 4: "create_user example_context (locked (SessionLocal example_db)) bob =
       (Inl (DBError (OperationalError ''database is locked'')), locked (SessionLocal ?stored))"
    by simp
  from 1 2 3 4 show ?thesis by simp
qed

section \<open>Creating a user and finding it again\<close>

text \<open>
  C5, as stated, fails for a password the hashing refuses. Carol's email is fresh, but
  \<open>create_user\<close> raises, and looking her email up afterwards finds nobody.
\<close>

theorem create_then_find_user_counterexample:
  "create_email carol \<notin> set (map user_email (users example_db))
   \<and> fst (create_user example_context (SessionLocal example_db) carol) =
       Inl (PasswordValueError ''bcrypt does not allow NULL bytes in password'')
   \<and> fst (get_user_by_email (snd (create_user example_context (SessionLocal example_db) carol))
          (create_email carol)) = None"
proof -
  have "get_user_by_email (SessionLocal example_db) (create_email carol) =
      (None, SessionLocal example_db)"
    using example_fresh(2) by (intro get_user_by_email_None) simp
  with create_user_hash_fails [OF example_hash_carol, of "SessionLocal example_db"]
  have "fst (create_user example_context (SessionLocal example_db) carol) =
       Inl (PasswordValueError ''bcrypt does not allow NULL bytes in password'')"
    and "fst (get_user_by_email (snd (create_user example_context (SessionLocal example_db) carol))
          (create_email carol)) = None"
    by simp_all
  with example_fresh(2) show ?thesis by blast
qed

text \<open>
  C5, amended. For every registration input whose email no row has yet and whose password
  the context hashes, \<open>create_user\<close> on a new session on an engine without faults
  succeeds, and \<open>get_user_by_email\<close> with that email on the resulting session returns the
  very row that \<open>create_user\<close> returned; its full name, email and account type are those
  of the input. The response schema \<open>UserSchema\<close> built from it carries the identifier and
  these three fields and does not depend on the password hash.
\<close>

theorem create_then_find_user:
  assumes "create_email usr \<notin> set (map user_email (users d))"
    and "get_password_hash ctx (create_password usr) = Inr h"
  shows "\<exists>u db'. create_user ctx (SessionLocal d) usr = (Inr u, db')
           \<and> get_user_by_email db' (create_email usr) = (Some u, db')
           \<and> user_full_name u = create_full_name usr
           \<and> user_email u = create_email usr
           \<and> user_account_type u = create_account_type usr
           \<and> (\<exists>i. UserSchema u =
                  Inr \<lparr>schema_id = i,
                       schema_full_name = create_full_name usr,
                       schema_email = create_email usr,
                       schema_account_type = create_account_type usr\<rparr>)
           \<and> (\<forall>h'. UserSchema (u\<lparr>user_hashed_password := h'\<rparr>) = UserSchema u)"
proof -
  define u where "u = \<lparr>user_id = Some (next_rowid (List.map_filter user_id (users d))),
                 user_full_name = create_full_name usr,
                 user_email = create_email usr,
                 user_hashed_password = h,
                 user_account_type = create_account_type usr,
                 user_is_active = Some True\<rparr>"
  define db' where "db' = SessionLocal (d\<lparr>users := users d @ [u]\<rparr>)"
  have c: "create_user ctx (SessionLocal d) usr = (Inr u, db')"
    using create_user_fresh [OF assms] by (simp add: u_def db'_def)
  have "filter (\<lambda>r. user_email r = create_email usr) (users d) = []"
    using assms(1) by (rule count_fresh_key)
  then have g: "get_user_by_email db' (create_email usr) = (Some u, db')"
    by (simp add: get_user_by_email_def query_users_def db'_def u_def)
  have s: "UserSchema u =
             Inr \<lparr>schema_id = next_rowid (List.map_filter user_id (users d)),
                  schema_full_name = create_full_name usr,
                  schema_email = create_email usr,
                  schema_account_type = create_account_type usr\<rparr>"
    by (simp add: UserSchema_def u_def)
  have x: "UserSchema (u\<lparr>user_hashed_password := h'\<rparr>) = UserSchema u" for h'
    by (simp add: UserSchema_def split: option.splits)
  from c g s x show ?thesis
    by (intro exI [of _ u] exI [of _ db']) (simp add: u_def)
qed

text \<open>The theorem for Bob on the example data.\<close>

theorem create_then_find_user_witness:
  "create_email bob \<notin> set (map user_email (users example_db))
   \<and> fst (get_user_by_email (snd (create_user example_context (SessionLocal example_db) bob))
          ''bob@example.com'') = Some bob_row
   \<and> UserSchema bob_row =
       Inr \<lparr>schema_id = 2, schema_full_name = ''Bob'', schema_email = ''bob@example.com'',
            schema_account_type = ''tpo-admin''\<rparr>"
proof -
  from create_then_find_user [OF example_fresh(1) example_hash_bob]
  obtain u db' where
    c: "create_user example_context (SessionLocal example_db) bob = (Inr u, db')" and
    g: "get_user_by_email db' (create_email bob) = (Some u, db')"
    by blast
  from c example_create_bob have "u = bob_row"
    and "db' = SessionLocal (example_db\<lparr>users := users example_db @ [bob_row]\<rparr>)"
    by simp_all
  with c g have "fst (get_user_by_email (snd (create_user example_context
          (SessionLocal example_db) bob)) ''bob@example.com'') = Some bob_row"
    by (simp add: bob_def)
  with example_fresh(1) show ?thesis by (simp add: UserSchema_def bob_row_def)
qed

section \<open>Hashing and verifying a password\<close>

text \<open>
  C6, as stated, fails in its second part. The password of 73 letters \<open>a\<close> differs from
  the password of 72 letters \<open>a\<close>, and it verifies against the hash of the latter: bcrypt
  reads 72 bytes. (This holds for every bcrypt function; the example context only makes
  the statement closed.)
\<close>

theorem verify_password_truncates_counterexample:
  "replicate 73 (CHR ''a'') \<noteq> replicate 72 (CHR ''a'')
   \<and> get_password_hash example_context (replicate 72 (CHR ''a'')) =
       Inr (''$2b$12$'' @ example_salt @ example_crypt example_salt (replicate 72 (CHR ''a'')))
   \<and> verify_password example_context (replicate 73 (CHR ''a''))
       (''$2b$12$'' @ example_salt @ example_crypt example_salt (replicate 72 (CHR ''a''))) =
       Inr True"
proof -
  have 1: "replicate 73 (CHR ''a'') \<noteq> replicate 72 (CHR ''a'')"
  proof
    assume "replicate 73 (CHR ''a'') = replicate 72 (CHR ''a'')"
    then have "length (replicate 73 (CHR ''a'')) = length (replicate 72 (CHR ''a''))"
      by (rule arg_cong)
    then show False by simp
  qed
  have 2: "get_password_hash example_context (replicate 72 (CHR ''a'')) =
       Inr (''$2b$12$'' @ example_salt @ example_crypt example_salt (replicate 72 (CHR ''a'')))"
    using bcrypt_hash_accepted [of "replicate 72 (CHR ''a'')" example_crypt example_salt]
    by (simp add: example_context_def)
  have 3: "verify_password example_context (replicate 73 (CHR ''a''))
       (''$2b$12$'' @ example_salt @ example_crypt example_salt (replicate 72 (CHR ''a''))) =
       Inr True"
    using bcrypt_verify_accepted [of example_salt "replicate 73 (CHR ''a'')" example_crypt
        example_salt "example_crypt example_salt (replicate 72 (CHR ''a''))"]
    by (simp add: example_context_def example_salt_def)
  from 1 2 3 show ?thesis by blast
qed

text \<open>
  C6, amended. For the bcrypt handler, with any bcrypt function and any salt of 22
  characters, and for every password \<open>p\<close> of at most 4096 bytes without a NUL byte:
  hashing succeeds, and \<open>p\<close> verifies against its hash. For every \<open>q\<close> of at most 4096
  bytes without a NUL byte, verification returns true exactly when the bcrypt function,
  under the salt stored in the hash, gives the first 72 bytes of \<open>q\<close> the digest stored in
  the hash; so every \<open>q\<close> that agrees with \<open>p\<close> on its first 72 bytes is accepted.
  That the hash is one-way is a property of the bcrypt function and is not stated here.
\<close>

theorem verify_password_bcrypt:
  assumes "length salt = 22" and "length p \<le> 4096" and "CHR 0x00 \<notin> set p"
  shows "get_password_hash (bcrypt_context crypt salt) p =
           Inr (''$2b$12$'' @ salt @ crypt salt (take 72 p))
         \<and> verify_password (bcrypt_context crypt salt') p
             (''$2b$12$'' @ salt @ crypt salt (take 72 p)) = Inr True
         \<and> (\<forall>q. length q \<le> 4096 \<longrightarrow> CHR 0x00 \<notin> set q \<longrightarrow>
               verify_password (bcrypt_context crypt salt') q
                 (''$2b$12$'' @ salt @ crypt salt (take 72 p)) =
               Inr (crypt salt (take 72 q) = crypt salt (take 72 p)))
         \<and> (\<forall>q. length q \<le> 4096 \<longrightarrow> CHR 0x00 \<notin> set q \<longrightarrow> take 72 q = take 72 p \<longrightarrow>
               verify_password (bcrypt_context crypt salt') q
                 (''$2b$12$'' @ salt @ crypt salt (take 72 p)) = Inr True)"
proof -
  have v: "verify_password (bcrypt_context crypt salt') q
                 (''$2b$12$'' @ salt @ crypt salt (take 72 p)) =
               Inr (crypt salt (take 72 q) = crypt salt (take 72 p))"
    if "length q \<le> 4096" and "CHR 0x00 \<notin> set q" for q
    using assms(1) that by (rule bcrypt_verify_accepted)
  have "get_password_hash (bcrypt_context crypt salt) p =
           Inr (''$2b$12$'' @ salt @ crypt salt (take 72 p))"
    using assms(2,3) by (rule bcrypt_hash_accepted)
  moreover have "verify_password (bcrypt_context crypt salt') p
             (''$2b$12$'' @ salt @ crypt salt (take 72 p)) = Inr True"
    using v [OF assms(2,3)] by simp
  moreover have "verify_password (bcrypt_context crypt salt') q
                 (''$2b$12$'' @ salt @ crypt salt (take 72 p)) = Inr True"
    if "length q \<le> 4096" and "CHR 0x00 \<notin> set q" and "take 72 q = take 72 p" for q
    using v [OF that(1,2)] that(3) by simp
  ultimately show ?thesis using v by blast
qed

text \<open>
  The theorem for Alice's password on the example data; with the stand-in bcrypt function
  another password is refused.
\<close>

theorem verify_password_bcrypt_witness:
  "length example_salt = 22 \<and> length ''wonderland'' \<le> 4096 \<and> CHR 0x00 \<notin> set ''wonderland''
   \<and> get_password_hash example_context ''wonderland'' =
       Inr ''$2b$12$abcdefghijklmnopqrstuvwonderlandabcdefghijklmnopqrstu''
   \<and> verify_password example_context ''wonderland''
       ''$2b$12$abcdefghijklmnopqrstuvwonderlandabcdefghijklmnopqrstu'' = Inr True
   \<and> verify_password example_context ''rabbit''
       ''$2b$12$abcdefghijklmnopqrstuvwonderlandabcdefghijklmnopqrstu'' = Inr False"
proof -
  have s: "length example_salt = 22" by (simp add: example_salt_def)
  have p: "length ''wonderland'' \<le> 4096" "CHR 0x00 \<notin> set ''wonderland''" by simp_all
  have q: "length ''rabbit'' \<le> 4096" "CHR 0x00 \<notin> set ''rabbit''" by simp_all
  have h: "''$2b$12$'' @ example_salt @ example_crypt example_salt (take 72 ''wonderland'') =
      ''$2b$12$abcdefghijklmnopqrstuvwonderlandabcdefghijklmnopqrstu''"
    by (simp add: example_salt_def example_crypt_def)
  have d: "example_crypt example_salt (take 72 ''rabbit'') \<noteq>
      example_crypt example_salt (take 72 ''wonderland'')"
    by (simp add: example_salt_def example_crypt_def)
  from verify_password_bcrypt [OF s p, of example_crypt example_salt] q d
  have "get_password_hash example_context ''wonderland'' =
       Inr ''$2b$12$abcdefghijklmnopqrstuvwonderlandabcdefghijklmnopqrstu''"
    and "verify_password example_context ''wonderland''
       ''$2b$12$abcdefghijklmnopqrstuvwonderlandabcdefghijklmnopqrstu'' = Inr True"
    and "verify_password example_context ''rabbit''
       ''$2b$12$abcdefghijklmnopqrstuvwonderlandabcdefghijklmnopqrstu'' = Inr False"
    unfolding h example_context_def [symmetric] by simp_all
  with s p show ?thesis by blast
qed

section \<open>Login failures\<close>

text \<open>
  C7 does not hold of \<open>login_user\<close>. On the example data, a login with an email that no
  user has raises HTTP 401 ``Invalid credentials''; a login with Alice's email raises
  \<open>AttributeError\<close>, whatever password the request carried, because the body is
  validated as a \<open>UserSchema\<close> and that schema has no password. The two failures are
  different results.
\<close>

theorem login_user_failures_differ:
  "login_user example_context (SessionLocal example_db) (login_body ''nobody@example.com'') =
     (Inl (HTTPException 401 ''Invalid credentials''), SessionLocal example_db)
   \<and> login_user example_context (SessionLocal example_db) (login_body ''alice@example.com'') =
       (Inl (AttributeError ''UserSchema object has no attribute password''),
        SessionLocal example_db)
   \<and> fst (login_user example_context (SessionLocal example_db)
            (login_body ''nobody@example.com'')) \<noteq>
     fst (login_user example_context (SessionLocal example_db)
            (login_body ''alice@example.com''))"
proof -
  have u: "schema_email (login_body ''nobody@example.com'')
             \<notin> set (map user_email (users (store (SessionLocal example_db))))"
    by (simp add: login_body_def example_db_def)
  have k: "schema_email (login_body ''alice@example.com'')
             \<in> set (map user_email (users (store (SessionLocal example_db))))"
    by (simp add: login_body_def example_db_def)
  show ?thesis
    by (simp add: login_user_unknown_email [OF u] login_user_known_email [OF k])
qed

section \<open>The account type\<close>

text \<open>
  C8 does not hold of the create path. The column comment and the docstring of
  \<open>register_user\<close> name the three account types, but nothing checks them: registering
  Mallory with the account type \<open>superuser\<close> on the example data stores a row with that
  account type, which is none of \<open>student\<close>, \<open>tpo-admin\<close> and \<open>recruiter\<close>.
\<close>

theorem register_user_account_type_unchecked:
  "map user_account_type
     (users (store (snd (register_user example_context (SessionLocal example_db) mallory))))
     = [''student'', ''superuser'']
   \<and> ''superuser'' \<notin> {''student'', ''tpo-admin'', ''recruiter''}"
proof -
  have fresh: "create_email mallory \<notin> set (map user_email (users (store (SessionLocal example_db))))"
    using example_fresh(3) by simp
  show ?thesis
    using register_user_fresh [OF fresh, of example_context]
      create_user_fresh [OF example_fresh(3) example_hash_mallory]
    by (simp add: example_db_def mallory_def)
qed

section \<open>The stubbed recommendation operation\<close>

text \<open>
  C9. \<open>get_recommendations\<close> returns the same two canned records for every user
  identifier, and the handler \<open>get_user_recommendations\<close> passes that list on unchanged:
  any two users are given the same recommendations.
\<close>

theorem get_recommendations_fixed:
  "get_recommendations uid =
     [\<lparr>role = ''Simulated Data Analyst'', match_score = 0.85\<rparr>,
      \<lparr>role = ''Simulated Software Engineer'', match_score = 0.79\<rparr>]
   \<and> get_recommendations uid = get_recommendations uid'
   \<and> recommendations (get_user_recommendations uid) = get_recommendations uid
   \<and> recommendations (get_user_recommendations uid) =
       recommendations (get_user_recommendations uid')"
  by (simp add: get_recommendations_def get_user_recommendations_def)

section \<open>Read operations leave the session and its tables alone\<close>

text \<open>
  C10. \<open>get_user_by_email\<close> and \<open>get_drives_by_company_id\<close> hand back the session they
  were given, for every session and every argument: the committed tables are the same,
  and so are the pending objects.
\<close>

theorem read_operations_frame:
  "snd (get_user_by_email db email) = db
   \<and> snd (get_drives_by_company_id db company_id) = db
   \<and> store (snd (get_user_by_email db email)) = store db
   \<and> store (snd (get_drives_by_company_id db company_id)) = store db"
  by (simp add: get_user_by_email_def get_drives_by_company_id_def
      query_users_def query_drives_def split: sum.splits)

end
